theory Spec2Isabelle
  imports Complex_Main "HOL-Library.Multiset" "HOL-Library.Sublist"
begin

section \<open>JavaScript values\<close>

text \<open>
  A JavaScript string is a finite sequence of UTF-16 code units; a code unit is modelled
  as a natural number. \<open>js\<close> embeds an ASCII literal.
\<close>

type_synonym jsstring = "nat list"

definition js :: "string \<Rightarrow> jsstring" where
  "js s = map of_char s"

text \<open>The regular-expression class \<^verbatim>\<open>\d\<close> (without the unicode flag): the digits 0-9.\<close>

definition is_digit :: "nat \<Rightarrow> bool" where
  "is_digit c \<longleftrightarrow> 48 \<le> c \<and> c \<le> 57"

text \<open>
  The class \<^verbatim>\<open>\s\<close>, which is also what \<^verbatim>\<open>String.prototype.trim\<close> removes: TAB, LF, VT, FF,
  CR, SPACE, U+00A0, U+1680, U+2000..U+200A, U+2028, U+2029, U+202F, U+205F, U+3000, U+FEFF.
\<close>

definition is_space :: "nat \<Rightarrow> bool" where
  "is_space c \<longleftrightarrow>
     (9 \<le> c \<and> c \<le> 13) \<or> c = 32 \<or> c = 160 \<or> c = 5760 \<or> (8192 \<le> c \<and> c \<le> 8202) \<or>
     c = 8232 \<or> c = 8233 \<or> c = 8239 \<or> c = 8287 \<or> c = 12288 \<or> c = 65279"

definition trim :: "jsstring \<Rightarrow> jsstring" where
  "trim s = rev (dropWhile is_space (rev (dropWhile is_space s)))"

text \<open>
  A JavaScript number. Finite doubles are idealised as the exact rationals they denote
  (no rounding); \<open>NaN\<close> is kept apart because it is what \<^verbatim>\<open>parseFloat\<close> returns on a
  string that does not start with a number.
\<close>

datatype number = NaN | Num rat

definition valor_digitos :: "jsstring \<Rightarrow> nat" where
  "valor_digitos ds = foldl (\<lambda>a c. 10 * a + (c - 48)) 0 ds"

text \<open>
  \<^verbatim>\<open>parseFloat\<close> on a string over the alphabet of digits and \<^verbatim>\<open>.\<close>: the longest prefix
  \<^verbatim>\<open>digits [. digits]\<close> is read as a decimal literal; \<open>NaN\<close> when that prefix holds no digit.
  (Signs, leading white space, exponents and \<^verbatim>\<open>Infinity\<close> cannot occur over this alphabet,
  which is all that \<open>extrairPreco\<close> passes.)
\<close>

definition parseFloat :: "jsstring \<Rightarrow> number" where
  "parseFloat s =
     (let i = takeWhile is_digit s;
          r = dropWhile is_digit s;
          f = (case r of [] \<Rightarrow> [] | p # t \<Rightarrow> if p = 46 then takeWhile is_digit t else [])
      in if i = [] \<and> f = [] then NaN
         else Num (of_nat (valor_digitos i) + of_nat (valor_digitos f) / 10 ^ length f))"

section \<open>Price extractor (olxService.extrairPreco)\<close>

text \<open>Characters that survive \<^verbatim>\<open>texto.replace(/[^\d,.-]/g, '')\<close>: digits, comma, period, hyphen.\<close>

definition manter :: "nat \<Rightarrow> bool" where
  "manter c \<longleftrightarrow> is_digit c \<or> c = 44 \<or> c = 46 \<or> c = 45"

text \<open>
  The pattern \<^verbatim>\<open>/(\d{1,3}(?:\.\d{3})*(?:,\d{2})?)/\<close>, piece by piece. Each function takes the
  text at the current position and returns what its piece consumes (greedily) and the rest.
  The second and third pieces can match the empty string, so the matcher never has to
  backtrack into an earlier piece.
\<close>

fun ate_tres_digitos :: "nat \<Rightarrow> jsstring \<Rightarrow> jsstring \<times> jsstring" where
  "ate_tres_digitos 0 s = ([], s)"
| "ate_tres_digitos (Suc n) [] = ([], [])"
| "ate_tres_digitos (Suc n) (c # cs) =
     (if is_digit c then (let (d, r) = ate_tres_digitos n cs in (c # d, r)) else ([], c # cs))"

fun grupos_milhar :: "jsstring \<Rightarrow> jsstring \<times> jsstring" where
  "grupos_milhar (p # a # b # c # s) =
     (if p = 46 \<and> is_digit a \<and> is_digit b \<and> is_digit c
      then (let (g, r) = grupos_milhar s in (p # a # b # c # g, r))
      else ([], p # a # b # c # s))"
| "grupos_milhar s = ([], s)"

fun centavos :: "jsstring \<Rightarrow> jsstring \<times> jsstring" where
  "centavos (p # a # b # s) =
     (if p = 44 \<and> is_digit a \<and> is_digit b then ([p, a, b], s) else ([], p # a # b # s))"
| "centavos s = ([], s)"

text \<open>The pattern tried at the start of \<open>s\<close>: the matched text, or \<open>None\<close>.\<close>

definition casa_preco :: "jsstring \<Rightarrow> jsstring option" where
  "casa_preco s =
     (let (d, r1) = ate_tres_digitos 3 s in
      if d = [] then None
      else let (g, r2) = grupos_milhar r1; (c, r3) = centavos r2 in Some (d @ g @ c))"

text \<open>\<^verbatim>\<open>limpo.match(re)\<close> without the global flag: the match at the leftmost position that has one.\<close>

fun match_preco :: "jsstring \<Rightarrow> jsstring option" where
  "match_preco [] = casa_preco []"
| "match_preco (c # cs) =
     (case casa_preco (c # cs) of Some m \<Rightarrow> Some m | None \<Rightarrow> match_preco cs)"

text \<open>\<^verbatim>\<open>s.replace(',', '.')\<close> with a string pattern: only the first occurrence is replaced.\<close>

fun replace_first :: "nat \<Rightarrow> nat \<Rightarrow> jsstring \<Rightarrow> jsstring" where
  "replace_first a b [] = []"
| "replace_first a b (c # cs) = (if c = a then b # cs else c # replace_first a b cs)"

text \<open>\<open>None\<close> is the \<^verbatim>\<open>null\<close> that the function returns for "no price".\<close>

definition extrairPreco :: "jsstring \<Rightarrow> number option" where
  "extrairPreco texto =
     (if texto = [] then None
      else let limpo = filter manter texto in
        case match_preco limpo of
          Some m \<Rightarrow> Some (parseFloat (replace_first 44 46 (filter (\<lambda>c. c \<noteq> 46) m)))
        | None \<Rightarrow>
            (let numeros = filter is_digit texto in
             if length numeros \<ge> 4 then Some (parseFloat numeros) else None))"

section \<open>Unicode tables of the runtime\<close>

text \<open>
  \<^verbatim>\<open>toLowerCase\<close>, \<^verbatim>\<open>toUpperCase\<close> and \<^verbatim>\<open>normalize('NFD')\<close> are built-ins of the JavaScript
  runtime, driven by the Unicode tables. They are a parameter of the model. What the
  standard fixes on ASCII text is \<open>conforme_ascii\<close>; \<open>unicode_ascii\<close> is the instance
  that leaves every other code unit alone.
\<close>

record unicode =
  toLowerCase :: "jsstring \<Rightarrow> jsstring"
  toUpperCase :: "jsstring \<Rightarrow> jsstring"
  normalizeNFD :: "jsstring \<Rightarrow> jsstring"

definition ascii :: "jsstring \<Rightarrow> bool" where
  "ascii s \<longleftrightarrow> (\<forall>c \<in> set s. c < 128)"

definition minuscula_ascii :: "nat \<Rightarrow> nat" where
  "minuscula_ascii c = (if 65 \<le> c \<and> c \<le> 90 then c + 32 else c)"

definition maiuscula_ascii :: "nat \<Rightarrow> nat" where
  "maiuscula_ascii c = (if 97 \<le> c \<and> c \<le> 122 then c - 32 else c)"

definition conforme_ascii :: "unicode \<Rightarrow> bool" where
  "conforme_ascii U \<longleftrightarrow>
     (\<forall>s. ascii s \<longrightarrow>
        toLowerCase U s = map minuscula_ascii s \<and>
        toUpperCase U s = map maiuscula_ascii s \<and>
        normalizeNFD U s = s)"

definition unicode_ascii :: unicode where
  "unicode_ascii =
     \<lparr>toLowerCase = map minuscula_ascii, toUpperCase = map maiuscula_ascii, normalizeNFD = id\<rparr>"

section \<open>Search URL (olxService.gerarUrlOlx, normalizarTexto)\<close>

text \<open>
  \<^verbatim>\<open>s.replace(/X+/g, r)\<close> for a character class \<open>p\<close>: every maximal run of characters of the
  class becomes the single character \<open>r\<close>.
\<close>

fun replace_runs :: "(nat \<Rightarrow> bool) \<Rightarrow> nat \<Rightarrow> jsstring \<Rightarrow> jsstring" where
  "replace_runs p r [] = []"
| "replace_runs p r [c] = (if p c then [r] else [c])"
| "replace_runs p r (c # d # cs) =
     (if p c then (if p d then replace_runs p r (d # cs) else r # replace_runs p r (d # cs))
      else c # replace_runs p r (d # cs))"

text \<open>
  \<^verbatim>\<open>s.replace(/^-|-$/g, '')\<close>: a hyphen at the very start is removed, and then a hyphen at
  the very end of what is left.
\<close>

definition aparar_hifens :: "jsstring \<Rightarrow> jsstring" where
  "aparar_hifens s =
     (let s1 = (case s of [] \<Rightarrow> [] | c # cs \<Rightarrow> if c = 45 then cs else c # cs)
      in if s1 \<noteq> [] \<and> last s1 = 45 then butlast s1 else s1)"

text \<open>The class of the combining diacritical marks, U+0300 to U+036F.\<close>

definition diacritico :: "nat \<Rightarrow> bool" where
  "diacritico c \<longleftrightarrow> 768 \<le> c \<and> c \<le> 879"

text \<open>The class \<^verbatim>\<open>[a-z0-9\s-]\<close>, whose complement is removed.\<close>

definition permitido :: "nat \<Rightarrow> bool" where
  "permitido c \<longleftrightarrow> (97 \<le> c \<and> c \<le> 122) \<or> is_digit c \<or> is_space c \<or> c = 45"

definition normalizarTexto :: "unicode \<Rightarrow> jsstring \<Rightarrow> jsstring" where
  "normalizarTexto U texto =
     (if texto = [] then []
      else aparar_hifens
             (replace_runs (\<lambda>c. c = 45) 45
               (replace_runs is_space 45
                 (trim
                   (filter permitido
                     (filter (\<lambda>c. \<not> diacritico c)
                       (normalizeNFD U (toLowerCase U texto))))))))"

text \<open>
  The fields of the vehicle that the URL builder reads; \<open>None\<close> is \<^verbatim>\<open>null\<close> or a missing
  field. Any record that extends this one is accepted, as the destructuring does.
\<close>

record dados_veiculo =
  marca :: "jsstring option"
  modelo :: "jsstring option"
  anoModelo :: "jsstring option"

definition base_olx :: jsstring where
  "base_olx = js ''https://www.olx.com.br/autos-e-pecas/carros-vans-e-utilitarios''"

text \<open>\<^verbatim>\<open>s.split(/[\s-]/)[0]\<close>: the text before the first white space or hyphen.\<close>

definition primeiro_token :: "jsstring \<Rightarrow> jsstring" where
  "primeiro_token s = takeWhile (\<lambda>c. \<not> (is_space c \<or> c = 45)) s"

text \<open>
  The guard \<^verbatim>\<open>!marca || !modelo || !anoModelo\<close> rejects \<^verbatim>\<open>null\<close> and the empty string.
  The code unit 47 is the slash of the template string.
\<close>

definition gerarUrlOlx :: "unicode \<Rightarrow> 'a dados_veiculo_scheme \<Rightarrow> jsstring option" where
  "gerarUrlOlx U veiculoData =
     (case (marca veiculoData, modelo veiculoData, anoModelo veiculoData) of
        (Some ma, Some mo, Some an) \<Rightarrow>
          if ma = [] \<or> mo = [] \<or> an = [] then None
          else
            let marcaNormalizada = normalizarTexto U ma;
                modeloNormalizado = normalizarTexto U mo;
                ano = primeiro_token (trim an)
            in Some (base_olx @ [47] @ marcaNormalizada @ [47] @ modeloNormalizado @ [47] @ ano)
      | _ \<Rightarrow> None)"

section \<open>Marketplace scraper (olxService.buscarPrecosOlx)\<close>

text \<open>
  What the three selector passes read from the parsed page:
  \<^item> \<open>cartoes\<close>: for each \<^verbatim>\<open>[data-ds-component="DS-AdCard-Link"]\<close> element, the text of its
    \<^verbatim>\<open>DS-AdCard-Price\<close> descendants;
  \<^item> \<open>links\<close>: for each \<^verbatim>\<open>a[href*="/autos-e-pecas/"]\<close> element, the text of its \<^verbatim>\<open>.olx-text\<close>
    descendants, of its \<^verbatim>\<open>[class*="price"]\<close> descendants, and its own text;
  \<^item> \<open>elementos\<close>: the text of every element of the page, in document order.
\<close>

record pagina =
  cartoes :: "jsstring list"
  links :: "(jsstring \<times> jsstring \<times> jsstring) list"
  elementos :: "jsstring list"

text \<open>
  An exception thrown by a library (the HTTP client, the HTML parser, the store), with its
  message.
\<close>

datatype excecao = Excecao jsstring

text \<open>
  The world outside the scraper: \<open>obter\<close> is the GET of the URL followed by the parse of
  the body (an exception at any of the two is \<open>Inl\<close>); \<open>formatar\<close> is
  \<^verbatim>\<open>Intl.NumberFormat('pt-BR', {style: 'currency', currency: 'BRL'}).format\<close>.
\<close>

record mundo_olx =
  obter :: "jsstring \<Rightarrow> excecao + pagina"
  formatar :: "rat \<Rightarrow> jsstring"

text \<open>\<^verbatim>\<open>if (preco) precos.push(preco)\<close>: \<^verbatim>\<open>null\<close>, \<^verbatim>\<open>0\<close> and \<^verbatim>\<open>NaN\<close> are not pushed.\<close>

fun preco_valido :: "number option \<Rightarrow> rat list" where
  "preco_valido (Some (Num q)) = (if q \<noteq> 0 then [q] else [])"
| "preco_valido _ = []"

definition passo_cartoes :: "jsstring list \<Rightarrow> rat list" where
  "passo_cartoes ts =
     concat (map (\<lambda>t. let precoTexto = trim t in
                       if precoTexto \<noteq> [] then preco_valido (extrairPreco precoTexto) else []) ts)"

text \<open>\<^verbatim>\<open>a || b || c\<close> on strings: the first that is not empty, else the last.\<close>

definition ou3 :: "jsstring \<times> jsstring \<times> jsstring \<Rightarrow> jsstring" where
  "ou3 t = (case t of (a, b, c) \<Rightarrow> if a \<noteq> [] then a else if b \<noteq> [] then b else c)"

definition passo_links :: "(jsstring \<times> jsstring \<times> jsstring) list \<Rightarrow> rat list" where
  "passo_links ls = concat (map (\<lambda>t. preco_valido (extrairPreco (ou3 t))) ls)"

text \<open>\<^verbatim>\<open>texto.includes('R$')\<close>.\<close>

fun inclui_cifrao :: "jsstring \<Rightarrow> bool" where
  "inclui_cifrao (a # b # s) = ((a = 82 \<and> b = 36) \<or> inclui_cifrao (b # s))"
| "inclui_cifrao _ = False"

text \<open>
  The bounded scan: \<^verbatim>\<open>count++ > 500\<close> stops the loop at the element of index 501, so the
  elements of index 0 to 500 are examined.
\<close>

definition passo_varredura :: "jsstring list \<Rightarrow> rat list" where
  "passo_varredura es =
     concat (map (\<lambda>texto.
                    if texto \<noteq> [] \<and> inclui_cifrao texto \<and> length texto < 100
                    then filter (\<lambda>q. q > 1000 \<and> q < 10000000) (preco_valido (extrairPreco texto))
                    else [])
                 (take 501 es))"

definition coletar_precos :: "pagina \<Rightarrow> rat list" where
  "coletar_precos pg =
     (let precos = passo_cartoes (cartoes pg);
          precos = (if length precos = 0 then passo_links (links pg) else precos);
          precos = (if length precos = 0 then passo_varredura (elementos pg) else precos)
      in precos)"

text \<open>\<^verbatim>\<open>[...new Set(xs)]\<close>: the first occurrence of each value, in insertion order.\<close>

fun sem_duplicatas :: "rat list \<Rightarrow> rat list \<Rightarrow> rat list" where
  "sem_duplicatas vistos [] = []"
| "sem_duplicatas vistos (x # xs) =
     (if x \<in> set vistos then sem_duplicatas vistos xs else x # sem_duplicatas (x # vistos) xs)"

definition precosUnicos :: "rat list \<Rightarrow> rat list" where
  "precosUnicos precos = filter (\<lambda>p. p > 0) (sem_duplicatas [] precos)"

text \<open>\<^verbatim>\<open>Math.min(...xs)\<close> and \<^verbatim>\<open>Math.max(...xs)\<close> on the non-empty array \<open>x # xs\<close>.\<close>

definition math_min :: "rat \<Rightarrow> rat list \<Rightarrow> rat" where
  "math_min x xs = fold min xs x"

definition math_max :: "rat \<Rightarrow> rat list \<Rightarrow> rat" where
  "math_max x xs = fold max xs x"

record resumo =
  menorPreco :: jsstring
  maiorPreco :: jsstring
  mediaPreco :: jsstring
  quantidadeAnuncios :: nat
  urlOlx :: jsstring

text \<open>The body of the \<^verbatim>\<open>try\<close> block: \<open>Inl\<close> is an exception on its way to the \<^verbatim>\<open>catch\<close>.\<close>

definition buscarPrecosOlx_try ::
  "unicode \<Rightarrow> mundo_olx \<Rightarrow> 'a dados_veiculo_scheme \<Rightarrow> excecao + resumo option" where
  "buscarPrecosOlx_try U W veiculoData =
     (case gerarUrlOlx U veiculoData of
        None \<Rightarrow> Inr None
      | Some url \<Rightarrow>
          (case obter W url of
             Inl e \<Rightarrow> Inl e
           | Inr pg \<Rightarrow>
               (case precosUnicos (coletar_precos pg) of
                  [] \<Rightarrow> Inr None
                | p # ps \<Rightarrow>
                    Inr (Some \<lparr>menorPreco = formatar W (math_min p ps),
                               maiorPreco = formatar W (math_max p ps),
                               mediaPreco =
                                 formatar W (foldl (+) 0 (p # ps) / of_nat (length (p # ps))),
                               quantidadeAnuncios = length (p # ps),
                               urlOlx = url\<rparr>))))"

text \<open>
  The whole function: the \<^verbatim>\<open>catch\<close> turns every exception into \<^verbatim>\<open>null\<close>. The result type
  still has room for an exception that would reach the caller.
\<close>

definition buscarPrecosOlx ::
  "unicode \<Rightarrow> mundo_olx \<Rightarrow> 'a dados_veiculo_scheme \<Rightarrow> excecao + resumo option" where
  "buscarPrecosOlx U W veiculoData =
     (case buscarPrecosOlx_try U W veiculoData of Inl e \<Rightarrow> Inr None | Inr r \<Rightarrow> Inr r)"

section \<open>Plate lookup client (apiPlacasService)\<close>

text \<open>The class \<^verbatim>\<open>[A-Z]\<close>.\<close>

definition is_upper :: "nat \<Rightarrow> bool" where
  "is_upper c \<longleftrightarrow> 65 \<le> c \<and> c \<le> 90"

text \<open>\<^verbatim>\<open>/^[A-Z]{3}[0-9]{4}$/\<close>: no flags, so both anchors are those of the whole string.\<close>

fun formatoAntigo :: "jsstring \<Rightarrow> bool" where
  "formatoAntigo [a, b, c, d, e, f, g] =
     (is_upper a \<and> is_upper b \<and> is_upper c \<and> is_digit d \<and> is_digit e \<and> is_digit f \<and> is_digit g)"
| "formatoAntigo _ = False"

text \<open>\<^verbatim>\<open>/^[A-Z]{3}[0-9][A-Z0-9][0-9]{2}$/\<close>.\<close>

fun formatoNovo :: "jsstring \<Rightarrow> bool" where
  "formatoNovo [a, b, c, d, e, f, g] =
     (is_upper a \<and> is_upper b \<and> is_upper c \<and> is_digit d \<and> (is_upper e \<or> is_digit e) \<and>
      is_digit f \<and> is_digit g)"
| "formatoNovo _ = False"

definition validarPlaca :: "jsstring \<Rightarrow> bool" where
  "validarPlaca placa \<longleftrightarrow> formatoAntigo placa \<or> formatoNovo placa"

text \<open>
  One valuation candidate of the provider (an element of \<^verbatim>\<open>data.fipe.dados\<close>): the two
  fields the client reads, and the rest of the object as it came.
\<close>

record item_fipe =
  texto_valor :: "jsstring option"
  score :: "rat option"
  demais :: jsstring

record bloco_fipe =
  dados :: "item_fipe list option"

text \<open>The body of the provider's response (\<^verbatim>\<open>response.data\<close>); \<open>None\<close> is a missing field.\<close>

record dados_api =
  api_placa :: "jsstring option"
  api_marca :: "jsstring option"
  api_modelo :: "jsstring option"
  api_ano :: "jsstring option"
  api_anoModelo :: "jsstring option"
  api_cor :: "jsstring option"
  api_chassi :: "jsstring option"
  api_renavam :: "jsstring option"
  api_uf :: "jsstring option"
  api_municipio :: "jsstring option"
  api_situacao :: "jsstring option"
  api_mensagemRetorno :: "jsstring option"
  fipe :: "bloco_fipe option"

text \<open>The canonical vehicle record that the client returns.\<close>

record veiculoData = dados_veiculo +
  placa :: jsstring
  ano :: "jsstring option"
  cor :: "jsstring option"
  chassi :: "jsstring option"
  renavam :: "jsstring option"
  uf :: "jsstring option"
  municipio :: "jsstring option"
  situacao :: "jsstring option"
  valorFipe :: "jsstring option"
  valorFipeScore :: "rat option"
  dadosFipe :: "item_fipe list option"
  mensagemRetorno :: "jsstring option"
  dadosCompletos :: dados_api

text \<open>
  The errors that leave \<open>consultarPlaca\<close>, one constructor for each \<^verbatim>\<open>throw\<close>:
  the format check, a provider message other than \<^verbatim>\<open>Sem erros.\<close>, a response outside 2xx
  (status and status text), no response at all, and any other error object, which is
  rethrown as it is (its message and its \<^verbatim>\<open>status\<close> property, if it has one).
\<close>

datatype erro =
    FormatoInvalido
  | Rejeitado jsstring
  | ErroApi nat jsstring
  | ErroConexao
  | Outro jsstring "nat option"

text \<open>What \<^verbatim>\<open>axios.get\<close> does: it resolves with the body, or rejects in one of three ways.\<close>

datatype axios =
    Resposta dados_api
  | FalhaResposta nat jsstring
  | FalhaRequisicao
  | FalhaOutra jsstring "nat option"

record config =
  baseURL :: jsstring
  token :: jsstring

text \<open>\<^verbatim>\<open>x || null\<close> on an optional string: the empty string becomes \<^verbatim>\<open>null\<close> too.\<close>

fun ou_nulo :: "jsstring option \<Rightarrow> jsstring option" where
  "ou_nulo None = None"
| "ou_nulo (Some s) = (if s = [] then None else Some s)"

text \<open>\<^verbatim>\<open>x.score || 0\<close>: a missing score counts as 0.\<close>

definition score_ou_zero :: "item_fipe \<Rightarrow> rat" where
  "score_ou_zero x = (case score x of None \<Rightarrow> 0 | Some q \<Rightarrow> q)"

text \<open>\<^verbatim>\<open>x.score || null\<close>: a score of 0 becomes \<^verbatim>\<open>null\<close>.\<close>

definition score_ou_nulo :: "item_fipe \<Rightarrow> rat option" where
  "score_ou_nulo x = (case score x of None \<Rightarrow> None | Some q \<Rightarrow> if q = 0 then None else Some q)"

text \<open>
  \<^verbatim>\<open>dados.sort((a, b) => (b.score || 0) - (a.score || 0))\<close>: \<^verbatim>\<open>Array.prototype.sort\<close> is
  stable, and the comparator puts \<open>a\<close> before \<open>b\<close> when the score of \<open>a\<close> is greater.
\<close>

definition ordenar_fipe :: "item_fipe list \<Rightarrow> item_fipe list" where
  "ordenar_fipe xs = sort_key (\<lambda>x. - score_ou_zero x) xs"

text \<open>
  The sort is in place: afterwards \<^verbatim>\<open>data.fipe.dados\<close> is the sorted array, also inside
  \<^verbatim>\<open>dadosCompletos\<close>. A list that is missing or empty is left alone.
\<close>

definition ordenar_no_lugar :: "dados_api \<Rightarrow> dados_api" where
  "ordenar_no_lugar d =
     (case fipe d of
        None \<Rightarrow> d
      | Some f \<Rightarrow>
          (case dados f of
             None \<Rightarrow> d
           | Some xs \<Rightarrow> if length xs > 0 then d\<lparr>fipe := Some (f\<lparr>dados := Some (ordenar_fipe xs)\<rparr>)\<rparr> else d))"

text \<open>The non-empty candidate list of a response, if it has one.\<close>

definition candidatos :: "dados_api \<Rightarrow> item_fipe list option" where
  "candidatos d =
     (case fipe d of
        None \<Rightarrow> None
      | Some f \<Rightarrow> (case dados f of None \<Rightarrow> None | Some xs \<Rightarrow> if length xs > 0 then Some xs else None))"

text \<open>
  The standardised object. The sorted array keeps the length of the original, so its
  first element exists whenever the guard \<^verbatim>\<open>dados.length > 0\<close> has passed.
\<close>

definition montar :: "jsstring \<Rightarrow> dados_api \<Rightarrow> veiculoData" where
  "montar placaFormatada d =
     (let (vf, vs, df) =
            (case candidatos d of
               None \<Rightarrow> (None, None, None)
             | Some xs \<Rightarrow>
                 (case ordenar_fipe xs of
                    [] \<Rightarrow> (None, None, None)
                  | melhorFipe # resto \<Rightarrow>
                      (ou_nulo (texto_valor melhorFipe), score_ou_nulo melhorFipe,
                       Some (melhorFipe # resto))))
      in \<lparr>marca = ou_nulo (api_marca d),
          modelo = ou_nulo (api_modelo d),
          anoModelo = ou_nulo (api_anoModelo d),
          placa = (case ou_nulo (api_placa d) of None \<Rightarrow> placaFormatada | Some p \<Rightarrow> p),
          ano = ou_nulo (api_ano d),
          cor = ou_nulo (api_cor d),
          chassi = ou_nulo (api_chassi d),
          renavam = ou_nulo (api_renavam d),
          uf = ou_nulo (api_uf d),
          municipio = ou_nulo (api_municipio d),
          situacao = ou_nulo (api_situacao d),
          valorFipe = vf,
          valorFipeScore = vs,
          dadosFipe = df,
          mensagemRetorno = ou_nulo (api_mensagemRetorno d),
          dadosCompletos = ordenar_no_lugar d\<rparr>)"

definition sem_erros :: jsstring where
  "sem_erros = js ''Sem erros.''"

text \<open>\<^verbatim>\<open>placa.replace(/\s/g, '').toUpperCase()\<close>.\<close>

definition formatar_placa :: "unicode \<Rightarrow> jsstring \<Rightarrow> jsstring" where
  "formatar_placa U placa_in = toUpperCase U (filter (\<lambda>c. \<not> is_space c) placa_in)"

text \<open>The template string of the lookup URL; the code unit 47 is the slash.\<close>

definition url_consulta :: "config \<Rightarrow> jsstring \<Rightarrow> jsstring" where
  "url_consulta cfg placaFormatada =
     baseURL cfg @ js ''/consulta/'' @ placaFormatada @ [47] @ token cfg"

text \<open>
  The client. \<open>get\<close> is \<^verbatim>\<open>axios.get\<close>. The \<^verbatim>\<open>catch\<close> rewraps the two kinds of HTTP
  failure and rethrows every other error unchanged.
\<close>

definition consultarPlaca ::
  "unicode \<Rightarrow> config \<Rightarrow> (jsstring \<Rightarrow> axios) \<Rightarrow> jsstring \<Rightarrow> erro + veiculoData" where
  "consultarPlaca U cfg get placa_in =
     (let placaFormatada = formatar_placa U placa_in in
      if \<not> validarPlaca placaFormatada then Inl FormatoInvalido
      else
        (case get (url_consulta cfg placaFormatada) of
           FalhaResposta st txt \<Rightarrow> Inl (ErroApi st txt)
         | FalhaRequisicao \<Rightarrow> Inl ErroConexao
         | FalhaOutra m st \<Rightarrow> Inl (Outro m st)
         | Resposta d \<Rightarrow>
             (case api_mensagemRetorno d of
                None \<Rightarrow> Inr (montar placaFormatada d)
              | Some m \<Rightarrow>
                  if m \<noteq> [] \<and> m \<noteq> sem_erros then Inl (Rejeitado m)
                  else Inr (montar placaFormatada d))))"

section \<open>Request handler (consultaController.consultar) and error middleware\<close>

text \<open>The decimal digits of a number, as the template string prints a status code.\<close>

fun decimal :: "nat \<Rightarrow> jsstring" where
  "decimal n = (if n < 10 then [48 + n] else decimal (n div 10) @ [48 + n mod 10])"

text \<open>\<^verbatim>\<open>err.message\<close>. The code unit 225 is a-acute.\<close>

fun mensagem :: "erro \<Rightarrow> jsstring" where
  "mensagem FormatoInvalido =
     js ''Formato de placa inv'' @ [225] @ js ''lido. Use o formato AAA0X00 ou AAA9999''"
| "mensagem (Rejeitado m) = m"
| "mensagem (ErroApi st txt) = js ''Erro na API Placas: '' @ decimal st @ js '' - '' @ txt"
| "mensagem ErroConexao = js ''Erro ao conectar com a API Placas. Tente novamente.''"
| "mensagem (Outro m st) = m"

text \<open>\<^verbatim>\<open>err.status\<close>: the errors built with \<^verbatim>\<open>new Error(message)\<close> have none.\<close>

fun erro_status :: "erro \<Rightarrow> nat option" where
  "erro_status (Outro m st) = st"
| "erro_status _ = None"

text \<open>
  A stored document: the vehicle record and its query timestamp, in milliseconds since
  the epoch (\<open>None\<close> when the field holds no date).
\<close>

record documento = veiculoData +
  dataConsulta :: "int option"

datatype fonte = Cache | Api

datatype objeto = Documento documento | Veiculo veiculoData

text \<open>
  The JSON bodies the handler and the middleware send: \<^verbatim>\<open>{error, message}\<close>,
  \<^verbatim>\<open>{success: true, data, timestamp}\<close> where \<open>data\<close> carries the \<open>fonte\<close> tag, and \<^verbatim>\<open>{error}\<close>.
\<close>

datatype corpo =
    Obrigatoria jsstring jsstring
  | Sucesso fonte objeto int
  | Falha jsstring

record resposta =
  status :: nat
  corpo :: corpo

text \<open>
  What the handler does to the outside, in order: the cache read with the plate it
  queries, a warning on the console, the call of the lookup client with the plate it
  passes, and the attempt to save a record.
\<close>

datatype evento =
    LeituraCache jsstring
  | Aviso
  | ConsultaApi jsstring
  | Gravacao veiculoData

text \<open>
  The world outside the handler: \<open>findOne\<close> is the store query
  \<^verbatim>\<open>findOne({placa}).sort({dataConsulta: -1})\<close> (the most recent document of the plate,
  \<^verbatim>\<open>null\<close>, or a store failure), \<open>save\<close> is \<^verbatim>\<open>new Vehicle(v).save()\<close> (\<open>True\<close> when it
  succeeds), \<open>http\<close> is the provider, \<open>agora\<close> and \<open>hora_resposta\<close> are the two readings
  of the clock.
\<close>

record mundo =
  findOne :: "jsstring \<Rightarrow> excecao + documento option"
  save :: "veiculoData \<Rightarrow> bool"
  http :: "jsstring \<Rightarrow> axios"
  agora :: int
  hora_resposta :: int

text \<open>Vehicle.findLatestByPlaca.\<close>

definition findLatestByPlaca :: "unicode \<Rightarrow> mundo \<Rightarrow> jsstring \<Rightarrow> excecao + documento option" where
  "findLatestByPlaca U W p = findOne W (toUpperCase U p)"

text \<open>
  The error middleware of the application: \<^verbatim>\<open>err.status || 500\<close> and
  \<^verbatim>\<open>err.message || 'Erro interno do servidor'\<close>.
\<close>

definition middleware_erro :: "erro \<Rightarrow> resposta" where
  "middleware_erro err =
     \<lparr>status = (case erro_status err of None \<Rightarrow> 500 | Some st \<Rightarrow> if st = 0 then 500 else st),
      corpo = Falha (if mensagem err = [] then js ''Erro interno do servidor'' else mensagem err)\<rparr>"

text \<open>The 400 answer. The code units 233 and 243 are e-acute and o-acute, 237 is i-acute.\<close>

definition resposta_400 :: resposta where
  "resposta_400 =
     \<lparr>status = 400,
      corpo = Obrigatoria (js ''Placa '' @ [233] @ js '' obrigat'' @ [243] @ js ''ria'')
                (js ''Informe a placa do ve'' @ [237] @ js ''culo no formato AAA0X00 ou AAA9999'')\<rparr>"

text \<open>
  \<^verbatim>\<open>consultaRecente.dataConsulta > umDiaAtras\<close>, with
  \<^verbatim>\<open>umDiaAtras = agora - 24 * 60 * 60 * 1000\<close>; a field without a date compares false.
\<close>

definition recente :: "int \<Rightarrow> documento \<Rightarrow> bool" where
  "recente t doc =
     (case dataConsulta doc of None \<Rightarrow> False | Some dc \<Rightarrow> dc > t - 24 * 60 * 60 * 1000)"

text \<open>
  The \<^verbatim>\<open>else\<close> branch of the handler: the lookup, the tag, the attempt to save. An error
  of the client goes to \<^verbatim>\<open>next\<close>, that is to the middleware. \<open>ev\<close> holds the effects so far.
\<close>

definition consultar_na_api ::
  "unicode \<Rightarrow> config \<Rightarrow> mundo \<Rightarrow> jsstring \<Rightarrow> evento list \<Rightarrow> resposta \<times> evento list" where
  "consultar_na_api U cfg W p ev =
     (case consultarPlaca U cfg (http W) p of
        Inl err \<Rightarrow> (middleware_erro err, ev @ [ConsultaApi p])
      | Inr v \<Rightarrow>
          (\<lparr>status = 200, corpo = Sucesso Api (Veiculo v) (hora_resposta W)\<rparr>,
           ev @ [ConsultaApi p, Gravacao v] @ (if save W v then [] else [Aviso])))"

text \<open>
  The handler: the request parameter (\<open>None\<close> when it is missing), and as result the
  response sent and the effects in order.
\<close>

definition consultar ::
  "unicode \<Rightarrow> config \<Rightarrow> mundo \<Rightarrow> jsstring option \<Rightarrow> resposta \<times> evento list" where
  "consultar U cfg W param =
     (case param of
        None \<Rightarrow> (resposta_400, [])
      | Some p \<Rightarrow>
          if p = [] then (resposta_400, [])
          else
            let (consultaRecente, ev) =
                  (case findLatestByPlaca U W p of
                     Inl dbError \<Rightarrow> (None, [LeituraCache (toUpperCase U p), Aviso])
                   | Inr r \<Rightarrow> (r, [LeituraCache (toUpperCase U p)]))
            in
              (case consultaRecente of
                 None \<Rightarrow> consultar_na_api U cfg W p ev
               | Some doc \<Rightarrow>
                   if recente (agora W) doc
                   then (\<lparr>status = 200,
                          corpo = Sucesso Cache (Documento doc) (hora_resposta W)\<rparr>, ev)
                   else consultar_na_api U cfg W p ev))"

section \<open>Notions used to state the properties\<close>

text \<open>Two hyphens side by side somewhere in the text.\<close>

fun hifen_duplo :: "jsstring \<Rightarrow> bool" where
  "hifen_duplo (a # b # s) = ((a = 45 \<and> b = 45) \<or> hifen_duplo (b # s))"
| "hifen_duplo _ = False"

text \<open>The class \<^verbatim>\<open>[a-z0-9-]\<close>.\<close>

definition letra_slug :: "nat \<Rightarrow> bool" where
  "letra_slug c \<longleftrightarrow> (97 \<le> c \<and> c \<le> 122) \<or> is_digit c \<or> c = 45"

text \<open>
  A URL segment in normal form: only characters of \<^verbatim>\<open>[a-z0-9-]\<close>, no two hyphens side by
  side, no hyphen at the start or at the end.
\<close>

definition segmento_normal :: "jsstring \<Rightarrow> bool" where
  "segmento_normal s \<longleftrightarrow>
     list_all letra_slug s \<and> \<not> hifen_duplo s \<and> (s = [] \<or> (hd s \<noteq> 45 \<and> last s \<noteq> 45))"

text \<open>All hyphens at the start and at the end removed.\<close>

definition tirar_hifens :: "jsstring \<Rightarrow> jsstring" where
  "tirar_hifens s = rev (dropWhile (\<lambda>c. c = 45) (rev (dropWhile (\<lambda>c. c = 45) s)))"

text \<open>
  The normalisation in the words of the specification, to compare with the code: lowercase,
  decompose accented characters and drop the diacritical marks, drop every character
  outside \<^verbatim>\<open>[a-z0-9\s-]\<close>, collapse white space to single hyphens, collapse repeated
  hyphens, trim the leading and trailing hyphens.
\<close>

definition normalizar_espec :: "unicode \<Rightarrow> jsstring \<Rightarrow> jsstring" where
  "normalizar_espec U texto =
     tirar_hifens
       (replace_runs (\<lambda>c. c = 45) 45
         (replace_runs is_space 45
           (filter permitido
             (filter (\<lambda>c. \<not> diacritico c)
               (normalizeNFD U (toLowerCase U texto))))))"

text \<open>The last three steps of that normalisation.\<close>

definition segmentar :: "jsstring \<Rightarrow> jsstring" where
  "segmentar a = tirar_hifens (replace_runs (\<lambda>c. c = 45) 45 (replace_runs is_space 45 a))"

text \<open>
  The selection of the best candidate in the words of the specification, to compare with
  the sort of the code: a max-by-score fold from left to right over the non-empty list
  \<open>x # xs\<close>, in which a later candidate replaces the current best only when its score is
  strictly greater (so the first of several equal ones stays), a missing score counting
  as 0.
\<close>

definition melhor_por_score :: "item_fipe \<Rightarrow> item_fipe list \<Rightarrow> item_fipe" where
  "melhor_por_score x xs =
     foldl (\<lambda>b y. if score_ou_zero y > score_ou_zero b then y else b) x xs"

text \<open>The list is in descending order of score.\<close>

definition score_decrescente :: "item_fipe list \<Rightarrow> bool" where
  "score_decrescente xs \<longleftrightarrow> sorted (map (\<lambda>x. - score_ou_zero x) xs)"

section \<open>Concrete inputs\<close>

text \<open>The vehicle of the URL example, and one whose fields need every step of the normalisation.\<close>

definition veiculo_gol :: dados_veiculo where
  "veiculo_gol =
     \<lparr>marca = Some (js ''Volkswagen Gol''), modelo = Some (js ''1.0''),
      anoModelo = Some (js ''2015 Flex'')\<rparr>"

definition veiculo_uno :: dados_veiculo where
  "veiculo_uno =
     \<lparr>marca = Some (js ''  Fiat -- Uno  ''), modelo = Some (js ''Mille (Fire)''),
      anoModelo = Some (js '' 1995-1996'')\<rparr>"

text \<open>
  A listing page with four price cards (one price twice, one card without a price), and a
  world that always serves it and prints a price as \<^verbatim>\<open>R$\<close> and its whole part.
\<close>

definition pagina_exemplo :: pagina where
  "pagina_exemplo =
     \<lparr>cartoes = [js '' R$ 50.000 '', js ''R$ 40.000,00'', js ''R$ 50.000'', js ''Consulte''],
      links = [], elementos = []\<rparr>"

definition mundo_olx_exemplo :: mundo_olx where
  "mundo_olx_exemplo =
     \<lparr>obter = (\<lambda>url. Inr pagina_exemplo),
      formatar = (\<lambda>q. js ''R$ '' @ decimal (nat \<lfloor>q\<rfloor>))\<rparr>"

text \<open>
  A configuration of the lookup client, a provider response without valuation, some
  valuation candidates, the response that carries a list of them, and the provider that
  always answers with a given response.
\<close>

definition cfg_exemplo :: config where
  "cfg_exemplo = \<lparr>baseURL = js ''https://wdapi2.com.br'', token = js ''segredo''\<rparr>"

definition resposta_vazia :: dados_api where
  "resposta_vazia =
     \<lparr>api_placa = None, api_marca = None, api_modelo = None, api_ano = None,
      api_anoModelo = None, api_cor = None, api_chassi = None, api_renavam = None,
      api_uf = None, api_municipio = None, api_situacao = None,
      api_mensagemRetorno = Some (js ''Sem erros.''), fipe = None\<rparr>"

definition item_a :: item_fipe where
  "item_a = \<lparr>texto_valor = Some (js ''R$ 30.000,00''), score = Some 9, demais = js ''a''\<rparr>"

definition item_b :: item_fipe where
  "item_b = \<lparr>texto_valor = Some (js ''R$ 31.000,00''), score = Some 5, demais = js ''b''\<rparr>"

definition item_zero :: item_fipe where
  "item_zero = \<lparr>texto_valor = Some (js ''R$ 32.000,00''), score = Some 0, demais = js ''z''\<rparr>"

definition item_sem_texto :: item_fipe where
  "item_sem_texto = \<lparr>texto_valor = Some [], score = None, demais = js ''s''\<rparr>"

definition com_fipe :: "item_fipe list \<Rightarrow> dados_api" where
  "com_fipe xs = resposta_vazia\<lparr>fipe := Some \<lparr>dados = Some xs\<rparr>\<rparr>"

definition provedor :: "dados_api \<Rightarrow> jsstring \<Rightarrow> axios" where
  "provedor d = (\<lambda>url. Resposta d)"

text \<open>One hour in milliseconds, and a stored document with a given query timestamp.\<close>

definition hora :: int where
  "hora = 60 * 60 * 1000"

definition documento_exemplo :: "int \<Rightarrow> documento" where
  "documento_exemplo t =
     veiculoData.extend (montar (js ''ABC1234'') resposta_vazia) \<lparr>dataConsulta = Some t\<rparr>"

text \<open>
  A world with an empty store, in which saving works and the provider has no valuation; the
  same world with one stored document; the same world with a store that fails on every
  read and every write.
\<close>

definition mundo_vazio :: mundo where
  "mundo_vazio =
     \<lparr>findOne = (\<lambda>q. Inr None), save = (\<lambda>v. True), http = provedor resposta_vazia,
      agora = 1000 * hora, hora_resposta = 1000 * hora + 1\<rparr>"

definition mundo_com_registro :: "int \<Rightarrow> mundo" where
  "mundo_com_registro t = mundo_vazio\<lparr>findOne := \<lambda>q. Inr (Some (documento_exemplo t))\<rparr>"

definition mundo_sem_banco :: mundo where
  "mundo_sem_banco =
     mundo_vazio\<lparr>findOne := \<lambda>q. Inl (Excecao (js ''buffering timed out'')), save := \<lambda>v. False\<rparr>"

text \<open>
  A store that holds a list of documents, and the query
  \<^verbatim>\<open>findOne({placa: q}).sort({dataConsulta: -1})\<close> on it: among the documents whose plate is the
  queried string, one with the latest query timestamp (a document without date comes after
  the dated ones; of several equally recent ones the first is taken). The \<^verbatim>\<open>trim\<close> of the
  schema touches only the two ends of the queried string.
\<close>

definition mais_novo :: "documento \<Rightarrow> documento \<Rightarrow> bool" where
  "mais_novo e b =
     (case dataConsulta e of
        None \<Rightarrow> False
      | Some x \<Rightarrow> (case dataConsulta b of None \<Rightarrow> True | Some y \<Rightarrow> x > y))"

definition buscar_na_colecao :: "documento list \<Rightarrow> jsstring \<Rightarrow> documento option" where
  "buscar_na_colecao docs q =
     (case filter (\<lambda>d. placa d = q) docs of
        [] \<Rightarrow> None
      | d # ds \<Rightarrow> Some (foldl (\<lambda>b e. if mais_novo e b then e else b) d ds))"

text \<open>The world of \<open>mundo_vazio\<close> with such a store (now is hour 1000).\<close>

definition mundo_colecao :: "documento list \<Rightarrow> mundo" where
  "mundo_colecao docs = mundo_vazio\<lparr>findOne := \<lambda>q. Inr (buscar_na_colecao docs q)\<rparr>"

section \<open>Properties of the price extractor\<close>

lemma ate_tres_digitos_fst:
  "fst (ate_tres_digitos (Suc n) s) = [] \<longleftrightarrow> (case s of [] \<Rightarrow> True | c # _ \<Rightarrow> \<not> is_digit c)"
  by (cases s) (auto split: prod.splits)

lemma ate_tres_digitos_hd:
  "fst (ate_tres_digitos (Suc n) (c # cs)) \<noteq> [] \<Longrightarrow>
   hd (fst (ate_tres_digitos (Suc n) (c # cs))) = c"
  by (auto split: prod.splits if_splits)

lemma casa_preco_None:
  "casa_preco s = None \<longleftrightarrow> (case s of [] \<Rightarrow> True | c # _ \<Rightarrow> \<not> is_digit c)"
  using ate_tres_digitos_fst [of 2 s]
  by (auto simp: casa_preco_def numeral_3_eq_3 split: prod.splits list.splits)

lemma casa_preco_Cons: "casa_preco (c # cs) = None \<longleftrightarrow> \<not> is_digit c"
  by (simp add: casa_preco_None)

lemma casa_preco_Nil: "casa_preco [] = None"
  by (simp add: casa_preco_None)

lemma casa_preco_Some: "casa_preco s = Some m \<Longrightarrow> m \<noteq> [] \<and> is_digit (hd m)"
proof -
  assume a: "casa_preco s = Some m"
  then obtain c cs where s: "s = c # cs" and dc: "is_digit c"
    using casa_preco_None [of s] by (cases s) auto
  obtain d r1 where dr: "ate_tres_digitos (Suc 2) (c # cs) = (d, r1)" by force
  have dne: "d \<noteq> []" using ate_tres_digitos_fst [of 2 "c # cs"] dr dc by simp
  have hd: "hd d = c" using ate_tres_digitos_hd [of 2 c cs] dr dne by simp
  from a s dr dne have "\<exists>t. m = d @ t"
    by (auto simp: casa_preco_def numeral_3_eq_3 split: prod.splits)
  with dne hd dc show ?thesis by auto
qed

text \<open>The pattern is not anchored: it finds a match as soon as the text holds one digit.\<close>

lemma match_preco_None: "match_preco s = None \<longleftrightarrow> (\<forall>c \<in> set s. \<not> is_digit c)"
proof (induction s)
  case Nil
  show ?case by (simp add: casa_preco_Nil)
next
  case (Cons c cs)
  show ?case
  proof (cases "is_digit c")
    case True
    then obtain m where "casa_preco (c # cs) = Some m"
      using casa_preco_Cons [of c cs] by (cases "casa_preco (c # cs)") auto
    with True show ?thesis by auto
  next
    case False
    then have "casa_preco (c # cs) = None" by (simp add: casa_preco_Cons)
    with False Cons show ?thesis by simp
  qed
qed

lemma match_preco_Some: "match_preco s = Some m \<Longrightarrow> m \<noteq> [] \<and> is_digit (hd m)"
  by (induction s) (auto simp: casa_preco_None dest: casa_preco_Some split: option.splits)

lemma parseFloat_digit:
  "s \<noteq> [] \<Longrightarrow> is_digit (hd s) \<Longrightarrow> \<exists>q. parseFloat s = Num q \<and> 0 \<le> q"
  by (cases s) (auto simp: parseFloat_def Let_def)

lemma hd_numero:
  "m \<noteq> [] \<Longrightarrow> is_digit (hd m) \<Longrightarrow>
   replace_first 44 46 (filter (\<lambda>c. c \<noteq> 46) m) \<noteq> [] \<and>
   is_digit (hd (replace_first 44 46 (filter (\<lambda>c. c \<noteq> 46) m)))"
  by (cases m) (auto simp: is_digit_def)

text \<open>
  The extractor is total: on every text it returns \<^verbatim>\<open>null\<close> or a number that is not
  \<^verbatim>\<open>NaN\<close> and not negative.
\<close>

lemma extrairPreco_numero:
  "extrairPreco t = None \<or> (\<exists>q. extrairPreco t = Some (Num q) \<and> 0 \<le> q)"
proof (cases "match_preco (filter manter t)")
  case None
  then have "filter is_digit t = []"
    by (auto simp: match_preco_None manter_def filter_empty_conv)
  with None show ?thesis by (simp add: extrairPreco_def)
next
  case (Some m)
  from match_preco_Some [OF Some] hd_numero [of m] parseFloat_digit
  show ?thesis using Some by (auto simp: extrairPreco_def)
qed

text \<open>
  It returns \<^verbatim>\<open>null\<close> exactly on the texts without a digit, so the second attempt (the
  digits alone, at least four of them) never produces a price.
\<close>

lemma extrairPreco_None_iff: "extrairPreco t = None \<longleftrightarrow> (\<forall>c \<in> set t. \<not> is_digit c)"
proof (cases "match_preco (filter manter t)")
  case None
  then have nd: "\<forall>c \<in> set t. \<not> is_digit c"
    by (auto simp: match_preco_None manter_def)
  then have "filter is_digit t = []" by (auto simp: filter_empty_conv)
  with None nd show ?thesis by (simp add: extrairPreco_def)
next
  case (Some m)
  then have "\<not> (\<forall>c \<in> set (filter manter t). \<not> is_digit c)"
    using match_preco_None [of "filter manter t"] by simp
  then have "\<not> (\<forall>c \<in> set t. \<not> is_digit c)" "t \<noteq> []" by auto
  with Some show ?thesis by (auto simp: extrairPreco_def)
qed

lemmas avaliar_preco =
  js_def extrairPreco_def manter_def is_digit_def casa_preco_def parseFloat_def
  valor_digitos_def numeral_3_eq_3

lemma extrairPreco_formatado: "extrairPreco (js ''R$ 50.000,00'') = Some (Num 50000)"
  by (simp add: avaliar_preco)

lemma extrairPreco_vazio: "extrairPreco (js []) = None"
  by (simp add: avaliar_preco)

text \<open>
  C1. The extractor never fails (\<open>extrairPreco_numero\<close>) and maps \<^verbatim>\<open>R$ 50.000,00\<close> to 50000
  and the empty text to no price, but on the two other inputs of the claim the code
  does not do what the claim says: from \<^verbatim>\<open>5000000\<close> the pattern takes the first three
  digits and the result is 500, and from \<^verbatim>\<open>R$ 123\<close> the result is the price 123.
\<close>

theorem extrairPreco_sem_separadores:
  "extrairPreco (js ''5000000'') = Some (Num 500) \<and>
   extrairPreco (js ''R$ 123'') = Some (Num 123)"
  by (simp add: avaliar_preco)

section \<open>Properties of the URL builder\<close>

lemma replace_runs_Cons_outro: "\<not> p d \<Longrightarrow> replace_runs p r (d # cs) = d # replace_runs p r cs"
  by (cases cs) auto

lemma set_replace_runs: "set (replace_runs p r s) \<subseteq> insert r {c \<in> set s. \<not> p c}"
  by (induction p r s rule: replace_runs.induct) auto

lemma hifen_duplo_Cons:
  "hifen_duplo (c # s) \<longleftrightarrow> (c = 45 \<and> s \<noteq> [] \<and> hd s = 45) \<or> hifen_duplo s"
  by (cases s) auto

text \<open>After \<^verbatim>\<open>replace(/-+/g, '-')\<close> no two hyphens are side by side.\<close>

lemma sem_hifen_duplo: "\<not> hifen_duplo (replace_runs (\<lambda>c. c = 45) 45 s)"
proof (induction "\<lambda>c::nat. c = 45" "45::nat" s rule: replace_runs.induct)
  case 1
  show ?case by simp
next
  case (2 c)
  show ?case by simp
next
  case (3 c d cs)
  let ?R = "replace_runs (\<lambda>c. c = 45) 45"
  show ?case
  proof (cases "c = 45")
    case True
    show ?thesis
    proof (cases "d = 45")
      case True
      with \<open>c = 45\<close> 3 show ?thesis by simp
    next
      case False
      then have e: "?R (c # d # cs) = 45 # d # ?R cs"
        using \<open>c = 45\<close> by (simp add: replace_runs_Cons_outro)
      have "\<not> hifen_duplo (d # ?R cs)"
        using 3 False \<open>c = 45\<close> by (simp add: replace_runs_Cons_outro)
      with False show ?thesis unfolding e by simp
    qed
  next
    case False
    then have e: "?R (c # d # cs) = c # ?R (d # cs)" by simp
    from 3 False show ?thesis unfolding e by (simp add: hifen_duplo_Cons)
  qed
qed

lemma hifen_duplo_butlast: "\<not> hifen_duplo s \<Longrightarrow> \<not> hifen_duplo (butlast s)"
proof (induction s rule: hifen_duplo.induct)
  case (1 a b s)
  then show ?case by (cases s) auto
qed auto

lemma last_butlast_hifen:
  "\<not> hifen_duplo s \<Longrightarrow> s \<noteq> [] \<Longrightarrow> last s = 45 \<Longrightarrow> butlast s = [] \<or> last (butlast s) \<noteq> 45"
proof (induction s rule: hifen_duplo.induct)
  case (1 a b s)
  then show ?case by (cases s) auto
qed auto

lemma hd_butlast: "butlast s \<noteq> [] \<Longrightarrow> hd (butlast s) = hd s"
  by (cases s) auto

text \<open>
  Once hyphens are single, removing one at the start and one at the end leaves none at
  either end.
\<close>

lemma aparar_hifens_normal:
  assumes "\<not> hifen_duplo s"
  shows "\<not> hifen_duplo (aparar_hifens s) \<and>
         (aparar_hifens s = [] \<or> (hd (aparar_hifens s) \<noteq> 45 \<and> last (aparar_hifens s) \<noteq> 45))"
proof -
  define s1 where "s1 = (case s of [] \<Rightarrow> [] | c # cs \<Rightarrow> if c = 45 then cs else c # cs)"
  have a1: "\<not> hifen_duplo s1" using assms
    by (cases s) (auto simp: s1_def hifen_duplo_Cons)
  have h1: "s1 = [] \<or> hd s1 \<noteq> 45" using assms
    by (cases s) (auto simp: s1_def hifen_duplo_Cons)
  have ap: "aparar_hifens s = (if s1 \<noteq> [] \<and> last s1 = 45 then butlast s1 else s1)"
    by (simp add: aparar_hifens_def s1_def)
  show ?thesis
  proof (cases "s1 \<noteq> [] \<and> last s1 = 45")
    case True
    then have e: "aparar_hifens s = butlast s1" using ap by simp
    from True a1 have "butlast s1 = [] \<or> last (butlast s1) \<noteq> 45"
      by (simp add: last_butlast_hifen)
    moreover have "butlast s1 = [] \<or> hd (butlast s1) \<noteq> 45"
      using h1 hd_butlast [of s1] by auto
    ultimately show ?thesis using a1 unfolding e by (auto simp: hifen_duplo_butlast)
  next
    case False
    then have e: "aparar_hifens s = s1" using ap by auto
    show ?thesis unfolding e using a1 h1 False by auto
  qed
qed

lemma set_aparar_hifens: "set (aparar_hifens s) \<subseteq> set s"
  by (cases s) (auto simp: aparar_hifens_def Let_def dest: in_set_butlastD split: if_splits)

lemma set_trim: "set (trim s) \<subseteq> set s"
  by (auto simp: trim_def dest!: set_dropWhileD)

lemma letras_normalizarTexto: "list_all letra_slug (normalizarTexto U t)"
proof (cases "t = []")
  case True
  then show ?thesis by (simp add: normalizarTexto_def)
next
  case False
  define a where
    "a = filter permitido (filter (\<lambda>c. \<not> diacritico c) (normalizeNFD U (toLowerCase U t)))"
  define b where "b = replace_runs is_space 45 (trim a)"
  define c where "c = replace_runs (\<lambda>c. c = 45) 45 b"
  have n: "normalizarTexto U t = aparar_hifens c"
    using False by (simp add: normalizarTexto_def a_def b_def c_def)
  have sa: "\<forall>x \<in> set a. permitido x" by (simp add: a_def)
  have "\<forall>x \<in> set (trim a). permitido x" using sa set_trim [of a] by auto
  then have sb: "\<forall>x \<in> set b. letra_slug x"
    using set_replace_runs [of is_space 45 "trim a"]
    by (auto simp: b_def permitido_def letra_slug_def)
  then have sc: "\<forall>x \<in> set c. letra_slug x"
    using set_replace_runs [of "\<lambda>c. c = 45" 45 b] by (auto simp: c_def letra_slug_def)
  then show ?thesis using set_aparar_hifens [of c] unfolding n by (auto simp: list_all_iff)
qed

text \<open>Whatever the Unicode tables do, the result of the normalisation is in normal form.\<close>

lemma normalizarTexto_normal: "segmento_normal (normalizarTexto U t)"
proof (cases "t = []")
  case True
  then show ?thesis by (simp add: normalizarTexto_def segmento_normal_def)
next
  case False
  define b where
    "b = replace_runs is_space 45 (trim (filter permitido (filter (\<lambda>c. \<not> diacritico c)
           (normalizeNFD U (toLowerCase U t)))))"
  have n: "normalizarTexto U t = aparar_hifens (replace_runs (\<lambda>c. c = 45) 45 b)"
    using False by (simp add: normalizarTexto_def b_def)
  from aparar_hifens_normal [OF sem_hifen_duplo [of b]] letras_normalizarTexto [of U t]
  show ?thesis unfolding segmento_normal_def n by simp
qed

lemma primeiro_token_sem_separador: "\<forall>c \<in> set (primeiro_token s). \<not> is_space c \<and> c \<noteq> 45"
  by (auto simp: primeiro_token_def dest: set_takeWhileD)

lemma primeiro_token_resto:
  "\<exists>r. s = primeiro_token s @ r \<and> (r = [] \<or> is_space (hd r) \<or> hd r = 45)"
proof -
  let ?p = "\<lambda>c. \<not> (is_space c \<or> c = 45)"
  have "s = takeWhile ?p s @ dropWhile ?p s" by simp
  moreover have "dropWhile ?p s = [] \<or> \<not> ?p (hd (dropWhile ?p s))"
    using hd_dropWhile [of ?p s] by blast
  ultimately show ?thesis unfolding primeiro_token_def by blast
qed

lemma ascii_minuscula: "ascii s \<Longrightarrow> ascii (map minuscula_ascii s)"
  by (auto simp: ascii_def minuscula_ascii_def)

lemma conforme_unicode_ascii: "conforme_ascii unicode_ascii"
  by (simp add: conforme_ascii_def unicode_ascii_def)

lemma normalizarTexto_ascii:
  assumes "conforme_ascii U" and "ascii t"
  shows "normalizarTexto U t = normalizarTexto unicode_ascii t"
proof -
  have l: "toLowerCase U t = map minuscula_ascii t"
    using assms by (simp add: conforme_ascii_def)
  have "normalizeNFD U (map minuscula_ascii t) = map minuscula_ascii t"
    using assms(1) ascii_minuscula [OF assms(2)] by (simp add: conforme_ascii_def)
  with l show ?thesis by (simp add: normalizarTexto_def unicode_ascii_def)
qed

lemmas avaliar_url =
  normalizarTexto_def unicode_ascii_def minuscula_ascii_def diacritico_def permitido_def
  is_space_def is_digit_def trim_def aparar_hifens_def js_def primeiro_token_def

lemma normalizar_marca:
  "normalizarTexto unicode_ascii (js ''Volkswagen Gol'') = js ''volkswagen-gol''"
  by (simp add: avaliar_url)

text \<open>The period is outside \<^verbatim>\<open>[a-z0-9\s-]\<close>: it is dropped, not turned into a hyphen.\<close>

lemma normalizar_modelo: "normalizarTexto unicode_ascii (js ''1.0'') = js ''10''"
  by (simp add: avaliar_url)

lemma token_ano: "primeiro_token (trim (js ''2015 Flex'')) = js ''2015''"
  by (simp add: avaliar_url)

lemma gerarUrlOlx_campos:
  "ma \<noteq> [] \<Longrightarrow> mo \<noteq> [] \<Longrightarrow> an \<noteq> [] \<Longrightarrow>
   gerarUrlOlx U \<lparr>marca = Some ma, modelo = Some mo, anoModelo = Some an\<rparr> =
     Some (base_olx @ [47] @ normalizarTexto U ma @ [47] @ normalizarTexto U mo @ [47] @
           primeiro_token (trim an))"
  by (simp add: gerarUrlOlx_def)

lemma gerarUrlOlx_gol:
  assumes "conforme_ascii U"
  shows "gerarUrlOlx U veiculo_gol = Some (base_olx @ js ''/volkswagen-gol/10/2015'')"
proof -
  have a: "ascii (js ''Volkswagen Gol'')" "ascii (js ''1.0'')"
    by (simp_all add: ascii_def js_def)
  have n: "js ''Volkswagen Gol'' \<noteq> []" "js ''1.0'' \<noteq> []" "js ''2015 Flex'' \<noteq> []"
    by (simp_all add: js_def)
  show ?thesis
    unfolding veiculo_gol_def gerarUrlOlx_campos [OF n] normalizarTexto_ascii [OF assms a(1)]
      normalizarTexto_ascii [OF assms a(2)] normalizar_marca normalizar_modelo token_ano
    by (simp add: js_def)
qed

text \<open>
  The code and the wording of the specification agree: the \<^verbatim>\<open>trim\<close> of the code changes
  nothing in the result, and removing one hyphen at each end removes them all.
\<close>

lemma replace_runs_snoc:
  "replace_runs p r (s @ [c]) =
     (if p c then (if s \<noteq> [] \<and> p (last s) then replace_runs p r s else replace_runs p r s @ [r])
      else replace_runs p r s @ [c])"
  by (induction p r s rule: replace_runs.induct) auto

lemma replace_runs_rev: "replace_runs p r (rev s) = rev (replace_runs p r s)"
proof (induction s)
  case Nil
  show ?case by simp
next
  case (Cons c cs)
  show ?case
  proof (cases cs)
    case Nil
    then show ?thesis by simp
  next
    case cs: (Cons d ds)
    have "replace_runs p r (rev (c # cs)) = replace_runs p r (rev cs @ [c])" by simp
    also have "\<dots> = (if p c then (if p d then rev (replace_runs p r cs)
                                   else rev (replace_runs p r cs) @ [r])
                       else rev (replace_runs p r cs) @ [c])"
      unfolding replace_runs_snoc Cons.IH using cs by simp
    also have "\<dots> = rev (replace_runs p r (c # cs))" unfolding cs by simp
    finally show ?thesis .
  qed
qed

lemma tirar_hifens_Cons: "tirar_hifens (45 # s) = tirar_hifens s"
  by (simp add: tirar_hifens_def)

lemma dropWhile_fim_comuta:
  "rev (dropWhile h (rev (dropWhile h s))) = dropWhile h (rev (dropWhile h (rev s)))"
proof (cases "\<forall>x \<in> set s. h x")
  case True
  then have e: "dropWhile h s = []" "dropWhile h (rev s) = []" by simp_all
  show ?thesis unfolding e by simp
next
  case False
  define t where "t = dropWhile h s"
  define X where "X = rev (dropWhile h (rev t))"
  have tne: "t \<noteq> []" and ht: "\<not> h (hd t)"
    using False hd_dropWhile [of h s] by (auto simp: t_def)
  have s: "s = takeWhile h s @ t" by (simp add: t_def)
  have ex: "hd t \<in> set (rev t)" using tne by simp
  have "rev s = rev t @ rev (takeWhile h s)" using s by (metis rev_append)
  then have "dropWhile h (rev s) = dropWhile h (rev t) @ rev (takeWhile h s)"
    using dropWhile_append1 [where P = h, OF ex ht] by simp
  then have r: "rev (dropWhile h (rev s)) = takeWhile h s @ X" by (simp add: X_def)
  obtain a u where t': "t = a # u" using tne by (cases t) auto
  have "dropWhile h (rev u @ [a]) = dropWhile h (rev u) @ [a]"
    using ht t' by (simp add: dropWhile_append)
  then have "X = a # rev (dropWhile h (rev u))" by (simp add: X_def t')
  then have "dropWhile h X = X" using ht t' by simp
  moreover have "dropWhile h (takeWhile h s @ X) = dropWhile h X"
    by (rule dropWhile_append2) (auto dest: set_takeWhileD)
  ultimately show ?thesis unfolding r by (simp add: X_def t_def)
qed

lemma tirar_hifens_rev: "tirar_hifens (rev s) = rev (tirar_hifens s)"
  using dropWhile_fim_comuta [of "\<lambda>c. c = 45" s] by (simp add: tirar_hifens_def)

lemma dropWhile_sem_duplo:
  "\<not> hifen_duplo s \<Longrightarrow>
   dropWhile (\<lambda>c. c = 45) s = (case s of [] \<Rightarrow> [] | c # cs \<Rightarrow> if c = 45 then cs else c # cs)"
  by (cases s) (auto simp: hifen_duplo_Cons dropWhile_eq_self_iff [THEN iffD2])

lemma aparar_tirar:
  assumes "\<not> hifen_duplo s"
  shows "aparar_hifens s = tirar_hifens s"
proof -
  define s1 where "s1 = (case s of [] \<Rightarrow> [] | c # cs \<Rightarrow> if c = 45 then cs else c # cs)"
  have a1: "\<not> hifen_duplo s1" using assms
    by (cases s) (auto simp: s1_def hifen_duplo_Cons)
  have d: "dropWhile (\<lambda>c. c = 45) s = s1"
    using dropWhile_sem_duplo [OF assms] by (simp add: s1_def)
  have ap: "aparar_hifens s = (if s1 \<noteq> [] \<and> last s1 = 45 then butlast s1 else s1)"
    by (simp add: aparar_hifens_def s1_def)
  have ti: "tirar_hifens s = rev (dropWhile (\<lambda>c. c = 45) (rev s1))"
    by (simp add: tirar_hifens_def d)
  show ?thesis
  proof (cases "s1 \<noteq> [] \<and> last s1 = 45")
    case True
    then have r: "rev s1 = 45 # rev (butlast s1)"
      by (metis append_butlast_last_id rev.simps(2) rev_rev_ident rev_swap)
    from True a1 have "butlast s1 = [] \<or> last (butlast s1) \<noteq> 45"
      by (simp add: last_butlast_hifen)
    then have "dropWhile (\<lambda>c. c = 45) (rev (butlast s1)) = rev (butlast s1)"
      by (cases "butlast s1 = []") (auto simp: dropWhile_eq_self_iff hd_rev)
    then show ?thesis using True unfolding ap ti r by simp
  next
    case False
    then have "dropWhile (\<lambda>c. c = 45) (rev s1) = rev s1"
      by (cases "s1 = []") (auto simp: dropWhile_eq_self_iff hd_rev)
    then show ?thesis using False unfolding ap ti by auto
  qed
qed

lemma replace_runs_inicio:
  "p c \<Longrightarrow> replace_runs p r (c # a) = r # replace_runs p r (dropWhile p a)"
proof (induction a arbitrary: c)
  case Nil
  then show ?case by simp
next
  case (Cons d ds)
  show ?case
  proof (cases "p d")
    case True
    with Cons show ?thesis by simp
  next
    case False
    with Cons show ?thesis by simp
  qed
qed

lemma tirar_col_dropWhile:
  "tirar_hifens (replace_runs (\<lambda>c. c = 45) 45 (dropWhile (\<lambda>c. c = 45) y)) =
   tirar_hifens (replace_runs (\<lambda>c. c = 45) 45 y)"
proof (cases y)
  case Nil
  then show ?thesis by simp
next
  case (Cons c cs)
  show ?thesis
  proof (cases "c = 45")
    case True
    then show ?thesis unfolding Cons
      using replace_runs_inicio [of "\<lambda>c. c = 45" 45 45 cs]
      by (simp add: tirar_hifens_Cons del: replace_runs.simps)
  next
    case False
    then show ?thesis unfolding Cons by simp
  qed
qed

lemma segmentar_inicio: "segmentar (dropWhile is_space a) = segmentar a"
proof (cases a)
  case Nil
  then show ?thesis by simp
next
  case (Cons c cs)
  show ?thesis
  proof (cases "is_space c")
    case True
    let ?b = "dropWhile is_space cs"
    have "segmentar (c # cs) =
            tirar_hifens (replace_runs (\<lambda>c. c = 45) 45 (45 # replace_runs is_space 45 ?b))"
      using True by (simp add: segmentar_def replace_runs_inicio del: replace_runs.simps)
    also have "\<dots> = tirar_hifens (replace_runs (\<lambda>c. c = 45) 45
                        (dropWhile (\<lambda>c. c = 45) (replace_runs is_space 45 ?b)))"
      using replace_runs_inicio [of "\<lambda>c. c = 45" 45 45 "replace_runs is_space 45 ?b"]
      by (simp add: tirar_hifens_Cons del: replace_runs.simps)
    also have "\<dots> = segmentar ?b" by (simp add: tirar_col_dropWhile segmentar_def)
    finally show ?thesis using True unfolding Cons by simp
  next
    case False
    then show ?thesis unfolding Cons by simp
  qed
qed

lemma segmentar_rev: "segmentar (rev a) = rev (segmentar a)"
  by (simp add: segmentar_def replace_runs_rev tirar_hifens_rev)

lemma segmentar_trim: "segmentar (trim a) = segmentar a"
proof -
  let ?b = "dropWhile is_space a"
  have "segmentar (trim a) = rev (segmentar (dropWhile is_space (rev ?b)))"
    by (simp add: trim_def segmentar_rev)
  also have "\<dots> = rev (segmentar (rev ?b))" by (simp add: segmentar_inicio)
  also have "\<dots> = segmentar ?b" by (simp add: segmentar_rev)
  also have "\<dots> = segmentar a" by (rule segmentar_inicio)
  finally show ?thesis .
qed

lemma normalizarTexto_espec:
  assumes "conforme_ascii U"
  shows "normalizarTexto U t = normalizar_espec U t"
proof (cases "t = []")
  case True
  have "ascii []" by (simp add: ascii_def)
  then have "toLowerCase U [] = []" "normalizeNFD U [] = []"
    using assms by (simp_all add: conforme_ascii_def)
  then show ?thesis using True
    by (simp add: normalizarTexto_def normalizar_espec_def tirar_hifens_def)
next
  case False
  define a where
    "a = filter permitido (filter (\<lambda>c. \<not> diacritico c) (normalizeNFD U (toLowerCase U t)))"
  have "normalizarTexto U t =
          aparar_hifens (replace_runs (\<lambda>c. c = 45) 45 (replace_runs is_space 45 (trim a)))"
    using False by (simp add: normalizarTexto_def a_def)
  also have "\<dots> = segmentar (trim a)"
    unfolding segmentar_def by (rule aparar_tirar) (rule sem_hifen_duplo)
  also have "\<dots> = segmentar a" by (rule segmentar_trim)
  also have "\<dots> = normalizar_espec U t" by (simp add: segmentar_def normalizar_espec_def a_def)
  finally show ?thesis .
qed

text \<open>
  C2, as the claim states it, fails at its own example: the path that the code builds for
  make \<^verbatim>\<open>Volkswagen Gol\<close>, model \<^verbatim>\<open>1.0\<close>, model-year \<^verbatim>\<open>2015 Flex\<close> ends in
  \<^verbatim>\<open>volkswagen-gol/10/2015\<close>, not in \<^verbatim>\<open>volkswagen-gol/1-0/2015\<close>.
\<close>

theorem gerarUrlOlx_gol_contraexemplo:
  "gerarUrlOlx unicode_ascii veiculo_gol =
     Some (js ''https://www.olx.com.br/autos-e-pecas/carros-vans-e-utilitarios/volkswagen-gol/10/2015'') \<and>
   \<not> suffix (js ''volkswagen-gol/1-0/2015'')
       (js ''https://www.olx.com.br/autos-e-pecas/carros-vans-e-utilitarios/volkswagen-gol/10/2015'')"
proof
  show "gerarUrlOlx unicode_ascii veiculo_gol =
     Some (js ''https://www.olx.com.br/autos-e-pecas/carros-vans-e-utilitarios/volkswagen-gol/10/2015'')"
    using gerarUrlOlx_gol [OF conforme_unicode_ascii] by (simp add: base_olx_def js_def)
  show "\<not> suffix (js ''volkswagen-gol/1-0/2015'')
       (js ''https://www.olx.com.br/autos-e-pecas/carros-vans-e-utilitarios/volkswagen-gol/10/2015'')"
    by (simp add: js_def suffix_to_prefix)
qed

text \<open>
  C2, amended. For every runtime whose case mapping and normalisation are the standard
  ones on ASCII: the URL for make \<^verbatim>\<open>Volkswagen Gol\<close>, model \<^verbatim>\<open>1.0\<close>, model-year
  \<^verbatim>\<open>2015 Flex\<close> ends in \<^verbatim>\<open>volkswagen-gol/10/2015\<close>. In general the URL is
  the fixed prefix followed by the normalised make, the normalised model and the year
  token; the normalisation of the code is the one the specification words (lowercase,
  decomposition, diacritics dropped, characters outside \<^verbatim>\<open>[a-z0-9\s-]\<close> dropped, white space
  to single hyphens, repeated hyphens collapsed, leading and trailing hyphens trimmed); a
  normalised text holds only characters of \<^verbatim>\<open>[a-z0-9-]\<close>, has no repeated hyphen and no
  hyphen at its start or end; and the year token is the part of the trimmed model-year
  before its first white space or hyphen.
\<close>

theorem gerarUrlOlx_normaliza:
  "conforme_ascii U \<Longrightarrow>
   gerarUrlOlx U veiculo_gol = Some (base_olx @ js ''/volkswagen-gol/10/2015'') \<and>
   (ma \<noteq> [] \<and> mo \<noteq> [] \<and> an \<noteq> [] \<longrightarrow>
      gerarUrlOlx U \<lparr>marca = Some ma, modelo = Some mo, anoModelo = Some an\<rparr> =
        Some (base_olx @ [47] @ normalizarTexto U ma @ [47] @ normalizarTexto U mo @ [47] @
              primeiro_token (trim an))) \<and>
   normalizarTexto U t = normalizar_espec U t \<and>
   segmento_normal (normalizarTexto U t) \<and>
   (\<forall>c \<in> set (primeiro_token (trim an)). \<not> is_space c \<and> c \<noteq> 45) \<and>
   (\<exists>r. trim an = primeiro_token (trim an) @ r \<and> (r = [] \<or> is_space (hd r) \<or> hd r = 45))"
  using gerarUrlOlx_gol [of U] gerarUrlOlx_campos [of ma mo an U]
    normalizarTexto_espec [of U t] normalizarTexto_normal [of U t]
    primeiro_token_sem_separador [of "trim an"] primeiro_token_resto [of "trim an"]
  by blast

theorem gerarUrlOlx_normaliza_testemunha:
  "conforme_ascii unicode_ascii \<and>
   gerarUrlOlx unicode_ascii veiculo_gol = Some (base_olx @ js ''/volkswagen-gol/10/2015'') \<and>
   gerarUrlOlx unicode_ascii veiculo_uno = Some (base_olx @ js ''/fiat-uno/mille-fire/1995'') \<and>
   normalizar_espec unicode_ascii (js ''Mille (Fire)'') = js ''mille-fire'' \<and>
   segmento_normal (js ''mille-fire'')"
proof -
  let ?ma = "js ''  Fiat -- Uno  ''" and ?mo = "js ''Mille (Fire)''" and ?an = "js '' 1995-1996''"
  have n: "?ma \<noteq> [] \<and> ?mo \<noteq> [] \<and> ?an \<noteq> []"
    by (simp add: js_def)
  have m: "normalizarTexto unicode_ascii ?mo = js ''mille-fire''"
    by (simp add: avaliar_url)
  have f: "normalizarTexto unicode_ascii ?ma = js ''fiat-uno''"
    by (simp add: avaliar_url)
  have y: "primeiro_token (trim ?an) = js ''1995''"
    by (simp add: avaliar_url)
  note t = gerarUrlOlx_normaliza [OF conforme_unicode_ascii, of ?ma ?mo ?an ?mo]
  have 1: "gerarUrlOlx unicode_ascii veiculo_gol = Some (base_olx @ js ''/volkswagen-gol/10/2015'')"
    using t by blast
  have "gerarUrlOlx unicode_ascii \<lparr>marca = Some ?ma, modelo = Some ?mo, anoModelo = Some ?an\<rparr> =
          Some (base_olx @ [47] @ normalizarTexto unicode_ascii ?ma @ [47] @
                normalizarTexto unicode_ascii ?mo @ [47] @ primeiro_token (trim ?an))"
    using t n by blast
  then have 2: "gerarUrlOlx unicode_ascii veiculo_uno =
                  Some (base_olx @ js ''/fiat-uno/mille-fire/1995'')"
    unfolding m f y veiculo_uno_def by (simp add: js_def)
  have "normalizarTexto unicode_ascii ?mo = normalizar_espec unicode_ascii ?mo"
    using t by blast
  then have 3: "normalizar_espec unicode_ascii ?mo = js ''mille-fire''"
    unfolding m by (rule sym)
  have "segmento_normal (normalizarTexto unicode_ascii ?mo)" using t by blast
  then have 4: "segmento_normal (js ''mille-fire'')" unfolding m .
  from conforme_unicode_ascii 1 2 3 4 show ?thesis by (intro conjI)
qed

section \<open>Properties of the scraper\<close>

text \<open>The array built from the \<^verbatim>\<open>Set\<close> has each price once.\<close>

lemma sem_duplicatas_props:
  "distinct (sem_duplicatas vs xs) \<and> set (sem_duplicatas vs xs) = set xs - set vs"
  by (induction xs arbitrary: vs) auto

lemma precosUnicos_props:
  "distinct (precosUnicos xs) \<and> set (precosUnicos xs) = {p \<in> set xs. 0 < p}"
  using sem_duplicatas_props [of "[]" xs] by (auto simp: precosUnicos_def)

lemma foldl_soma: "foldl (+) a xs = a + sum_list xs" for a :: rat
  by (induction xs arbitrary: a) (auto simp: algebra_simps)

lemma media_distinta:
  fixes us :: "rat list"
  assumes "distinct us"
  shows "foldl (+) 0 us / of_nat (length us) = sum (\<lambda>p. p) (set us) / of_nat (card (set us))"
  using assms sum_list_distinct_conv_sum_set [of us "\<lambda>p. p"]
  by (simp add: foldl_soma distinct_card)

lemma buscarPrecosOlx_retorna: "\<exists>r. buscarPrecosOlx U W v = Inr r"
  by (simp add: buscarPrecosOlx_def split: sum.splits)

lemma buscarPrecosOlx_sem_url: "gerarUrlOlx U v = None \<Longrightarrow> buscarPrecosOlx U W v = Inr None"
  by (simp add: buscarPrecosOlx_def buscarPrecosOlx_try_def)

lemma buscarPrecosOlx_excecao:
  "gerarUrlOlx U v = Some url \<Longrightarrow> obter W url = Inl e \<Longrightarrow> buscarPrecosOlx U W v = Inr None"
  by (simp add: buscarPrecosOlx_def buscarPrecosOlx_try_def)

lemma buscarPrecosOlx_pagina:
  assumes u: "gerarUrlOlx U v = Some url" and o: "obter W url = Inr pg"
    and S: "S = {p \<in> set (coletar_precos pg). 0 < p}"
  shows "if S = {} then buscarPrecosOlx U W v = Inr None
         else buscarPrecosOlx U W v =
                Inr (Some \<lparr>menorPreco = formatar W (Min S), maiorPreco = formatar W (Max S),
                           mediaPreco = formatar W (sum (\<lambda>p. p) S / of_nat (card S)),
                           quantidadeAnuncios = card S, urlOlx = url\<rparr>)"
proof -
  define us where "us = precosUnicos (coletar_precos pg)"
  have d: "distinct us" and s: "set us = S"
    using precosUnicos_props [of "coletar_precos pg"] by (simp_all add: us_def S)
  show ?thesis
  proof (cases us)
    case Nil
    then have "S = {}" using s by simp
    moreover have "buscarPrecosOlx U W v = Inr None"
      using u o Nil by (simp add: buscarPrecosOlx_def buscarPrecosOlx_try_def us_def [symmetric])
    ultimately show ?thesis by simp
  next
    case (Cons p ps)
    then have ne: "S \<noteq> {}" using s by auto
    have mn: "math_min p ps = Min S" unfolding math_min_def
      using Min.set_eq_fold [of p ps] s Cons by simp
    have mx: "math_max p ps = Max S" unfolding math_max_def
      using Max.set_eq_fold [of p ps] s Cons by simp
    have md: "foldl (+) 0 (p # ps) / of_nat (length (p # ps)) = sum (\<lambda>p. p) S / of_nat (card S)"
      using media_distinta [OF d] s Cons by simp
    have ln: "length (p # ps) = card S" using d s Cons distinct_card [of us] by simp
    have "buscarPrecosOlx U W v =
            Inr (Some \<lparr>menorPreco = formatar W (math_min p ps),
                       maiorPreco = formatar W (math_max p ps),
                       mediaPreco = formatar W (foldl (+) 0 (p # ps) / of_nat (length (p # ps))),
                       quantidadeAnuncios = length (p # ps), urlOlx = url\<rparr>)"
      using u o Cons by (simp add: buscarPrecosOlx_def buscarPrecosOlx_try_def us_def [symmetric])
    then have "buscarPrecosOlx U W v =
            Inr (Some \<lparr>menorPreco = formatar W (Min S), maiorPreco = formatar W (Max S),
                       mediaPreco = formatar W (sum (\<lambda>p. p) S / of_nat (card S)),
                       quantidadeAnuncios = card S, urlOlx = url\<rparr>)"
      by (simp only: md) (simp only: mn mx ln)
    then show ?thesis using ne by simp
  qed
qed

lemma coletar_exemplo: "coletar_precos pagina_exemplo = [50000, 40000, 50000]"
  by (simp add: coletar_precos_def pagina_exemplo_def passo_cartoes_def trim_def is_space_def avaliar_preco)

text \<open>Every price that a pass collects is positive, so the filter \<^verbatim>\<open>p > 0\<close> removes nothing.\<close>

lemma preco_valido_positivo: "q \<in> set (preco_valido (extrairPreco t)) \<Longrightarrow> 0 < q"
  using extrairPreco_numero [of t] by (auto split: if_splits)

lemma coletar_precos_positivos: "q \<in> set (coletar_precos pg) \<Longrightarrow> 0 < q"
  by (auto simp: coletar_precos_def passo_cartoes_def passo_links_def passo_varredura_def Let_def
      dest: preco_valido_positivo split: if_splits)

text \<open>
  C3. For every vehicle, every runtime and every behaviour of the network and of the
  parser, \<open>buscarPrecosOlx\<close> returns (it never throws): \<^verbatim>\<open>null\<close> when no URL can be built,
  \<^verbatim>\<open>null\<close> when fetching or parsing throws, \<^verbatim>\<open>null\<close> when the set \<open>S\<close> of the distinct
  positive prices extracted from the page is empty, and otherwise the summary with the
  formatted minimum, maximum and arithmetic mean of \<open>S\<close>, the number of elements of \<open>S\<close> and
  the URL.
\<close>

theorem buscarPrecosOlx_resumo:
  "(\<exists>r. buscarPrecosOlx U W v = Inr r) \<and>
   (gerarUrlOlx U v = None \<longrightarrow> buscarPrecosOlx U W v = Inr None) \<and>
   (gerarUrlOlx U v = Some url \<and> obter W url = Inl e \<longrightarrow> buscarPrecosOlx U W v = Inr None) \<and>
   (gerarUrlOlx U v = Some url \<and> obter W url = Inr pg \<and>
    S = {p \<in> set (coletar_precos pg). 0 < p} \<longrightarrow>
      (if S = {} then buscarPrecosOlx U W v = Inr None
       else buscarPrecosOlx U W v =
              Inr (Some \<lparr>menorPreco = formatar W (Min S), maiorPreco = formatar W (Max S),
                         mediaPreco = formatar W (sum (\<lambda>p. p) S / of_nat (card S)),
                         quantidadeAnuncios = card S, urlOlx = url\<rparr>)))"
  using buscarPrecosOlx_retorna [of U W v] buscarPrecosOlx_sem_url [of U v W]
    buscarPrecosOlx_excecao [of U v url W e] buscarPrecosOlx_pagina [of U v url W pg S]
  by blast

theorem buscarPrecosOlx_resumo_testemunha:
  "buscarPrecosOlx unicode_ascii mundo_olx_exemplo veiculo_gol =
     Inr (Some \<lparr>menorPreco = js ''R$ 40000'', maiorPreco = js ''R$ 50000'',
                mediaPreco = js ''R$ 45000'', quantidadeAnuncios = 2,
                urlOlx = base_olx @ js ''/volkswagen-gol/10/2015''\<rparr>)"
proof -
  have u: "gerarUrlOlx unicode_ascii veiculo_gol = Some (base_olx @ js ''/volkswagen-gol/10/2015'')"
    using gerarUrlOlx_gol [OF conforme_unicode_ascii] .
  have o: "obter mundo_olx_exemplo (base_olx @ js ''/volkswagen-gol/10/2015'') = Inr pagina_exemplo"
    by (simp add: mundo_olx_exemplo_def)
  have S: "{50000, 40000} = {p \<in> set (coletar_precos pagina_exemplo). 0 < p}"
    unfolding coletar_exemplo by auto
  have f: "formatar mundo_olx_exemplo 40000 = js ''R$ 40000''"
     "formatar mundo_olx_exemplo 50000 = js ''R$ 50000''"
     "formatar mundo_olx_exemplo 45000 = js ''R$ 45000''"
    by (simp_all add: mundo_olx_exemplo_def js_def)
  let ?X = "buscarPrecosOlx unicode_ascii mundo_olx_exemplo veiculo_gol"
  let ?url = "base_olx @ js ''/volkswagen-gol/10/2015''"
  let ?S = "{50000, 40000} :: rat set"
  from buscarPrecosOlx_resumo [of unicode_ascii mundo_olx_exemplo veiculo_gol
      ?url undefined pagina_exemplo ?S] u o S
  have "if ?S = {} then ?X = Inr None
        else ?X = Inr (Some \<lparr>menorPreco = formatar mundo_olx_exemplo (Min ?S),
                              maiorPreco = formatar mundo_olx_exemplo (Max ?S),
                              mediaPreco = formatar mundo_olx_exemplo
                                             (sum (\<lambda>p. p) ?S / of_nat (card ?S)),
                              quantidadeAnuncios = card ?S, urlOlx = ?url\<rparr>)"
    by blast
  then show ?thesis by (simp add: f)
qed

section \<open>Properties of the plate lookup client\<close>

text \<open>
  The fold of the specification returns a candidate of the list whose score is the
  greatest, and the first of those in the order of the list.
\<close>

lemma melhor_por_score_props:
  "melhor_por_score x xs \<in> set (x # xs) \<and>
   (\<forall>y \<in> set (x # xs). score_ou_zero y \<le> score_ou_zero (melhor_por_score x xs)) \<and>
   hd (filter (\<lambda>y. score_ou_zero y = score_ou_zero (melhor_por_score x xs)) (x # xs)) =
     melhor_por_score x xs"
proof (induction xs rule: rev_induct)
  case Nil
  show ?case by (simp add: melhor_por_score_def)
next
  case (snoc z zs)
  let ?b = "melhor_por_score x zs"
  have step: "melhor_por_score x (zs @ [z]) = (if score_ou_zero z > score_ou_zero ?b then z else ?b)"
    by (simp add: melhor_por_score_def)
  show ?case
  proof (cases "score_ou_zero z > score_ou_zero ?b")
    case True
    then have e: "melhor_por_score x (zs @ [z]) = z" using step by simp
    have "filter (\<lambda>y. score_ou_zero y = score_ou_zero z) (x # zs) = []"
      using snoc True by (auto simp: filter_empty_conv simp del: filter.simps)
    then have "filter (\<lambda>y. score_ou_zero y = score_ou_zero z) (x # zs @ [z]) = [z]"
      by (metis (mono_tags, lifting) append_Cons append_Nil filter.simps(1) filter.simps(2) filter_append)
    with snoc True show ?thesis unfolding e by (auto simp del: filter.simps)
  next
    case False
    then have e: "melhor_por_score x (zs @ [z]) = ?b" using step by simp
    have ne: "filter (\<lambda>y. score_ou_zero y = score_ou_zero ?b) (x # zs) \<noteq> []"
      using snoc by (auto simp: filter_empty_conv simp del: filter.simps)
    have "filter (\<lambda>y. score_ou_zero y = score_ou_zero ?b) (x # zs @ [z]) =
          filter (\<lambda>y. score_ou_zero y = score_ou_zero ?b) (x # zs) @
          filter (\<lambda>y. score_ou_zero y = score_ou_zero ?b) [z]"
      by (metis append_Cons filter_append)
    then have "hd (filter (\<lambda>y. score_ou_zero y = score_ou_zero ?b) (x # zs @ [z])) =
               hd (filter (\<lambda>y. score_ou_zero y = score_ou_zero ?b) (x # zs))"
      using ne by simp
    with snoc False show ?thesis unfolding e by (auto simp del: filter.simps)
  qed
qed

text \<open>What the sort of the code does: a stable sort into descending score order.\<close>

lemma ordenar_fipe_mset: "mset (ordenar_fipe xs) = mset xs"
  by (simp add: ordenar_fipe_def)

lemma ordenar_fipe_decrescente: "score_decrescente (ordenar_fipe xs)"
  by (simp add: ordenar_fipe_def score_decrescente_def)

lemma ordenar_fipe_estavel:
  "filter (\<lambda>y. score_ou_zero y = k) (ordenar_fipe xs) = filter (\<lambda>y. score_ou_zero y = k) xs"
  using sort_key_stable [of "\<lambda>x. - score_ou_zero x" "- k" xs] by (simp add: ordenar_fipe_def)

lemma ordenar_fipe_id: "ordenar_fipe xs = xs \<longleftrightarrow> score_decrescente xs"
proof
  assume "ordenar_fipe xs = xs"
  then show "score_decrescente xs" using ordenar_fipe_decrescente [of xs] by simp
next
  assume "score_decrescente xs"
  then show "ordenar_fipe xs = xs"
    using sort_key_id_if_sorted [of "\<lambda>x. - score_ou_zero x" xs]
    by (simp add: ordenar_fipe_def score_decrescente_def)
qed

lemma ordenar_fipe_vazio: "ordenar_fipe xs = [] \<longleftrightarrow> xs = []"
  using ordenar_fipe_mset [of xs] by (metis mset_zero_iff)

text \<open>Sort-and-take-first (the code) selects the same candidate as the fold (the specification).\<close>

lemma hd_ordenar_fipe: "hd (ordenar_fipe (x # xs)) = melhor_por_score x xs"
proof -
  let ?zs = "x # xs"
  let ?ys = "ordenar_fipe ?zs"
  let ?b = "melhor_por_score x xs"
  obtain m ms where ys: "?ys = m # ms"
    using ordenar_fipe_vazio [of ?zs] by (cases ?ys) auto
  have set: "set ?ys = set ?zs" using ordenar_fipe_mset [of ?zs] by (metis mset_eq_setD)
  have "sorted (map (\<lambda>x. - score_ou_zero x) (m # ms))"
    using ordenar_fipe_decrescente [of ?zs] ys by (simp add: score_decrescente_def)
  then have mx: "\<forall>y \<in> set ?zs. score_ou_zero y \<le> score_ou_zero m"
    using set ys by auto
  have min: "m \<in> set ?zs" using set ys by auto
  have "hd (filter (\<lambda>y. score_ou_zero y = score_ou_zero m) ?ys) = m" using ys by simp
  then have hm: "hd (filter (\<lambda>y. score_ou_zero y = score_ou_zero m) ?zs) = m"
    using ordenar_fipe_estavel [of "score_ou_zero m" ?zs] by simp
  from melhor_por_score_props [of x xs] mx min
  have eq: "score_ou_zero m = score_ou_zero ?b" by (meson order.antisym)
  from melhor_por_score_props [of x xs] hm show ?thesis unfolding ys eq by simp
qed

text \<open>The two patterns, read as lists: three letters and four digits; three letters, a digit,
  a letter or digit, two digits.\<close>

lemma formatoAntigo_iff:
  "formatoAntigo s \<longleftrightarrow>
     (\<exists>l d. s = l @ d \<and> length l = 3 \<and> length d = 4 \<and> list_all is_upper l \<and> list_all is_digit d)"
proof
  assume "formatoAntigo s"
  then obtain a b c d e f g where s: "s = [a, b, c, d, e, f, g]"
    by (induction s rule: formatoAntigo.induct) auto
  with \<open>formatoAntigo s\<close> have "s = [a, b, c] @ [d, e, f, g] \<and> length [a, b, c] = 3 \<and>
      length [d, e, f, g] = 4 \<and> list_all is_upper [a, b, c] \<and> list_all is_digit [d, e, f, g]"
    by simp
  then show "\<exists>l d. s = l @ d \<and> length l = 3 \<and> length d = 4 \<and> list_all is_upper l \<and> list_all is_digit d"
    by blast
next
  assume "\<exists>l d. s = l @ d \<and> length l = 3 \<and> length d = 4 \<and> list_all is_upper l \<and> list_all is_digit d"
  then obtain l d where s: "s = l @ d" and l: "length l = 3" "list_all is_upper l"
    and d: "length d = 4" "list_all is_digit d" by blast
  from l(1) obtain a b c where l': "l = [a, b, c]"
    by (auto simp: length_Suc_conv numeral_3_eq_3)
  from d(1) obtain e f g h where d': "d = [e, f, g, h]"
    by (auto simp: length_Suc_conv eval_nat_numeral)
  from l(2) d(2) show "formatoAntigo s" unfolding s l' d' by simp
qed

lemma formatoNovo_iff:
  "formatoNovo s \<longleftrightarrow>
     (\<exists>l d x t. s = l @ [d, x] @ t \<and> length l = 3 \<and> length t = 2 \<and> list_all is_upper l \<and>
        is_digit d \<and> (is_upper x \<or> is_digit x) \<and> list_all is_digit t)"
proof
  assume "formatoNovo s"
  then obtain a b c d e f g where s: "s = [a, b, c, d, e, f, g]"
    by (induction s rule: formatoNovo.induct) auto
  with \<open>formatoNovo s\<close> have "s = [a, b, c] @ [d, e] @ [f, g] \<and> length [a, b, c] = 3 \<and>
      length [f, g] = 2 \<and> list_all is_upper [a, b, c] \<and> is_digit d \<and>
      (is_upper e \<or> is_digit e) \<and> list_all is_digit [f, g]"
    by simp
  then show "\<exists>l d x t. s = l @ [d, x] @ t \<and> length l = 3 \<and> length t = 2 \<and> list_all is_upper l \<and>
        is_digit d \<and> (is_upper x \<or> is_digit x) \<and> list_all is_digit t"
    by blast
next
  assume "\<exists>l d x t. s = l @ [d, x] @ t \<and> length l = 3 \<and> length t = 2 \<and> list_all is_upper l \<and>
        is_digit d \<and> (is_upper x \<or> is_digit x) \<and> list_all is_digit t"
  then obtain l d x t where s: "s = l @ [d, x] @ t" and l: "length l = 3" "list_all is_upper l"
    and t: "length t = 2" "list_all is_digit t" and dx: "is_digit d" "is_upper x \<or> is_digit x"
    by blast
  from l(1) obtain a b c where l': "l = [a, b, c]"
    by (auto simp: length_Suc_conv numeral_3_eq_3)
  from t(1) obtain f g where t': "t = [f, g]"
    by (auto simp: length_Suc_conv eval_nat_numeral)
  from l(2) t(2) dx show "formatoNovo s" unfolding s l' t' by simp
qed

lemma consultarPlaca_formato:
  "consultarPlaca U cfg get p = Inl FormatoInvalido \<longleftrightarrow> \<not> validarPlaca (formatar_placa U p)"
  by (auto simp: consultarPlaca_def Let_def split: axios.splits option.splits)

lemmas avaliar_placa = validarPlaca_def js_def is_upper_def is_digit_def

lemma placas_exemplo:
  "validarPlaca (js ''ABC1234'') \<and> validarPlaca (js ''ABC1D23'') \<and> \<not> validarPlaca (js ''AB1234'') \<and>
   \<not> validarPlaca (js ''ABCD123'') \<and> \<not> validarPlaca (js ''abc-1234'')"
  by (simp add: avaliar_placa)

lemma formatar_placa_ascii:
  "conforme_ascii U \<Longrightarrow> ascii p \<Longrightarrow> formatar_placa U p = formatar_placa unicode_ascii p"
  by (simp add: formatar_placa_def conforme_ascii_def unicode_ascii_def ascii_def)

lemmas avaliar_formatar = formatar_placa_def unicode_ascii_def maiuscula_ascii_def is_space_def js_def

lemma formatar_exemplos:
  "formatar_placa unicode_ascii (js ''abc-1234'') = js ''ABC-1234''"
  "formatar_placa unicode_ascii (js '' abc 1d23 '') = js ''ABC1D23''"
  by (simp_all add: avaliar_formatar)

lemma consultarPlaca_exemplos:
  assumes "conforme_ascii U"
  shows "consultarPlaca U cfg get (js ''abc-1234'') = Inl FormatoInvalido"
    and "consultarPlaca U cfg get (js '' abc 1d23 '') \<noteq> Inl FormatoInvalido"
proof -
  have a: "ascii (js ''abc-1234'')" "ascii (js '' abc 1d23 '')" by (simp_all add: ascii_def js_def)
  show "consultarPlaca U cfg get (js ''abc-1234'') = Inl FormatoInvalido"
    unfolding consultarPlaca_formato formatar_placa_ascii [OF assms a(1)] formatar_exemplos
    by (simp add: avaliar_placa)
  show "consultarPlaca U cfg get (js '' abc 1d23 '') \<noteq> Inl FormatoInvalido"
    unfolding consultarPlaca_formato formatar_placa_ascii [OF assms a(2)] formatar_exemplos
    by (simp add: avaliar_placa)
qed

text \<open>
  C5. The lookup fails with the invalid-format error exactly when the plate, with white
  space removed and in upper case, matches neither the old pattern (three letters and four
  digits) nor the new one (three letters, a digit, a letter or digit, two digits). The
  validator accepts \<^verbatim>\<open>ABC1234\<close> and \<^verbatim>\<open>ABC1D23\<close> and rejects \<^verbatim>\<open>AB1234\<close>, \<^verbatim>\<open>ABCD123\<close> and
  \<^verbatim>\<open>abc-1234\<close>; on a runtime with the standard ASCII case mapping the lookup rejects
  \<^verbatim>\<open>abc-1234\<close> and lets \<^verbatim>\<open> abc 1d23 \<close> through the format check.
\<close>

theorem consultarPlaca_formato_invalido:
  "(consultarPlaca U cfg get p = Inl FormatoInvalido \<longleftrightarrow>
      \<not> (formatoAntigo (formatar_placa U p) \<or> formatoNovo (formatar_placa U p))) \<and>
   (formatoAntigo s \<longleftrightarrow>
      (\<exists>l d. s = l @ d \<and> length l = 3 \<and> length d = 4 \<and> list_all is_upper l \<and>
         list_all is_digit d)) \<and>
   (formatoNovo s \<longleftrightarrow>
      (\<exists>l d x t. s = l @ [d, x] @ t \<and> length l = 3 \<and> length t = 2 \<and> list_all is_upper l \<and>
         is_digit d \<and> (is_upper x \<or> is_digit x) \<and> list_all is_digit t)) \<and>
   validarPlaca (js ''ABC1234'') \<and> validarPlaca (js ''ABC1D23'') \<and>
   \<not> validarPlaca (js ''AB1234'') \<and> \<not> validarPlaca (js ''ABCD123'') \<and>
   \<not> validarPlaca (js ''abc-1234'') \<and>
   (conforme_ascii U \<longrightarrow>
      consultarPlaca U cfg get (js ''abc-1234'') = Inl FormatoInvalido \<and>
      consultarPlaca U cfg get (js '' abc 1d23 '') \<noteq> Inl FormatoInvalido)"
  using consultarPlaca_formato [of U cfg get p] formatoAntigo_iff [of s] formatoNovo_iff [of s]
    placas_exemplo consultarPlaca_exemplos [of U cfg get]
  unfolding validarPlaca_def by blast

lemma consultarPlaca_Inr:
  assumes "consultarPlaca U cfg get p = Inr r"
    and "get (url_consulta cfg (formatar_placa U p)) = Resposta d"
  shows "r = montar (formatar_placa U p) d"
  using assms by (auto simp: consultarPlaca_def Let_def split: if_splits option.splits)

lemma candidatos_dados: "fipe d = Some f \<Longrightarrow> dados f = Some (x # xs) \<Longrightarrow> candidatos d = Some (x # xs)"
  by (simp add: candidatos_def)

lemma montar_fipe:
  assumes "fipe d = Some f" and "dados f = Some (x # xs)"
  shows "valorFipe (montar pf d) = ou_nulo (texto_valor (melhor_por_score x xs))"
    and "valorFipeScore (montar pf d) = score_ou_nulo (melhor_por_score x xs)"
    and "dadosFipe (montar pf d) = Some (ordenar_fipe (x # xs))"
    and "fipe (dadosCompletos (montar pf d)) = Some (f\<lparr>dados := Some (ordenar_fipe (x # xs))\<rparr>)"
proof -
  obtain m ms where o: "ordenar_fipe (x # xs) = m # ms"
    using ordenar_fipe_vazio [of "x # xs"] by (cases "ordenar_fipe (x # xs)") auto
  have m: "m = melhor_por_score x xs" using hd_ordenar_fipe [of x xs] o by simp
  have c: "candidatos d = Some (x # xs)" using assms by (rule candidatos_dados)
  show "valorFipe (montar pf d) = ou_nulo (texto_valor (melhor_por_score x xs))"
    by (simp add: montar_def c o m)
  show "valorFipeScore (montar pf d) = score_ou_nulo (melhor_por_score x xs)"
    by (simp add: montar_def c o m)
  show "dadosFipe (montar pf d) = Some (ordenar_fipe (x # xs))"
    by (simp add: montar_def c o)
  show "fipe (dadosCompletos (montar pf d)) = Some (f\<lparr>dados := Some (ordenar_fipe (x # xs))\<rparr>)"
    using assms by (simp add: montar_def c o ordenar_no_lugar_def)
qed

lemma primeiro_do_filtro:
  "filter P zs \<noteq> [] \<Longrightarrow> \<exists>i < length zs. zs ! i = hd (filter P zs) \<and> (\<forall>j < i. \<not> P (zs ! j))"
proof (induction zs)
  case Nil
  then show ?case by simp
next
  case (Cons z zs)
  show ?case
  proof (cases "P z")
    case True
    then have "(z # zs) ! 0 = hd (filter P (z # zs)) \<and> (\<forall>j < 0. \<not> P ((z # zs) ! j))" by simp
    then show ?thesis by blast
  next
    case False
    with Cons obtain i where i: "i < length zs" "zs ! i = hd (filter P zs)" "\<forall>j < i. \<not> P (zs ! j)"
      by auto
    have "\<forall>j < Suc i. \<not> P ((z # zs) ! j)"
      using i(3) False by (auto simp: less_Suc_eq_0_disj)
    with i False have "Suc i < length (z # zs) \<and> (z # zs) ! Suc i = hd (filter P (z # zs)) \<and>
        (\<forall>j < Suc i. \<not> P ((z # zs) ! j))" by simp
    then show ?thesis by blast
  qed
qed

lemma melhor_por_score_primeiro:
  "\<exists>i < length (x # xs). (x # xs) ! i = melhor_por_score x xs \<and>
     (\<forall>j < i. score_ou_zero ((x # xs) ! j) < score_ou_zero (melhor_por_score x xs))"
proof -
  let ?b = "melhor_por_score x xs"
  let ?P = "\<lambda>y. score_ou_zero y = score_ou_zero ?b"
  note p = melhor_por_score_props [of x xs]
  have ne: "filter ?P (x # xs) \<noteq> []" using p by (auto simp: filter_empty_conv simp del: filter.simps)
  have hb: "hd (filter ?P (x # xs)) = ?b" using p by (elim conjE)
  from primeiro_do_filtro [OF ne] obtain i where
    i0: "i < length (x # xs)" "(x # xs) ! i = hd (filter ?P (x # xs))"
      "\<forall>j < i. \<not> ?P ((x # xs) ! j)"
    by blast
  have i: "i < length (x # xs)" "(x # xs) ! i = ?b" "\<forall>j < i. \<not> ?P ((x # xs) ! j)"
    using i0 hb by (simp_all only:)
  have "\<forall>j < i. score_ou_zero ((x # xs) ! j) < score_ou_zero ?b"
  proof (intro allI impI)
    fix j assume j: "j < i"
    then have "(x # xs) ! j \<in> set (x # xs)" using i(1) by (meson nth_mem order.strict_trans)
    then have le: "score_ou_zero ((x # xs) ! j) \<le> score_ou_zero ?b" using p by blast
    have neq: "score_ou_zero ((x # xs) ! j) \<noteq> score_ou_zero ?b" using i(3) j by blast
    show "score_ou_zero ((x # xs) ! j) < score_ou_zero ?b"
      using neq le by (rule order.not_eq_order_implies_strict)
  qed
  with i show ?thesis by blast
qed

lemma ou_nulo_if: "ou_nulo t = (if t = Some [] then None else t)"
  by (cases t) auto

lemma score_ou_nulo_if: "score_ou_nulo x = (if score x = Some 0 then None else score x)"
  by (simp add: score_ou_nulo_def split: option.splits)

text \<open>
  C4, amended. When the response of a successful lookup holds a non-empty candidate list,
  the candidate the record exposes is the one with the greatest score (a missing score
  counting as 0), the first such in provider order; the record carries its text and its
  score, except that an empty text and a score of 0 are exposed as \<^verbatim>\<open>null\<close>.
\<close>

theorem consultarPlaca_melhor_fipe:
  "consultarPlaca U cfg get p = Inr r \<Longrightarrow>
   get (url_consulta cfg (formatar_placa U p)) = Resposta d \<Longrightarrow>
   fipe d = Some f \<Longrightarrow> dados f = Some (x # xs) \<Longrightarrow>
   melhor_por_score x xs \<in> set (x # xs) \<and>
   (\<forall>y \<in> set (x # xs). score_ou_zero y \<le> score_ou_zero (melhor_por_score x xs)) \<and>
   (\<exists>i < length (x # xs). (x # xs) ! i = melhor_por_score x xs \<and>
      (\<forall>j < i. score_ou_zero ((x # xs) ! j) < score_ou_zero (melhor_por_score x xs))) \<and>
   valorFipe r =
     (if texto_valor (melhor_por_score x xs) = Some [] then None
      else texto_valor (melhor_por_score x xs)) \<and>
   valorFipeScore r =
     (if score (melhor_por_score x xs) = Some 0 then None else score (melhor_por_score x xs))"
  using melhor_por_score_props [of x xs] melhor_por_score_primeiro [of x xs]
    montar_fipe(1,2) [of d f x xs "formatar_placa U p"] consultarPlaca_Inr [of U cfg get p r d]
  by (simp only: ou_nulo_if score_ou_nulo_if) blast

text \<open>
  C9. If the best candidate has the score 0 or no score, \<open>valorFipeScore\<close> is \<^verbatim>\<open>null\<close>
  (it is never 0); if its text is the empty string, \<open>valorFipe\<close> is \<^verbatim>\<open>null\<close>.
\<close>

theorem consultarPlaca_score_nulo:
  "consultarPlaca U cfg get p = Inr r \<Longrightarrow>
   get (url_consulta cfg (formatar_placa U p)) = Resposta d \<Longrightarrow>
   fipe d = Some f \<Longrightarrow> dados f = Some (x # xs) \<Longrightarrow>
   (score (melhor_por_score x xs) = Some 0 \<or> score (melhor_por_score x xs) = None
      \<longrightarrow> valorFipeScore r = None) \<and>
   valorFipeScore r \<noteq> Some 0 \<and>
   (texto_valor (melhor_por_score x xs) = Some [] \<longrightarrow> valorFipe r = None)"
  using montar_fipe(1,2) [of d f x xs "formatar_placa U p"] consultarPlaca_Inr [of U cfg get p r d]
  by (auto simp: ou_nulo_if score_ou_nulo_if)

text \<open>
  C10, amended. After a successful lookup with a non-empty candidate list, \<open>dadosFipe\<close> is
  the provider's array sorted in place (the array inside \<open>dadosCompletos\<close> is the same sorted
  one): it holds exactly the candidates the provider sent, in descending score order,
  candidates of equal score keeping their relative order; it is in the provider's order
  exactly when the provider's list was already in descending score order.
\<close>

theorem consultarPlaca_dadosFipe_ordenado:
  "consultarPlaca U cfg get p = Inr r \<Longrightarrow>
   get (url_consulta cfg (formatar_placa U p)) = Resposta d \<Longrightarrow>
   fipe d = Some f \<Longrightarrow> dados f = Some (x # xs) \<Longrightarrow>
   dadosFipe r = Some (ordenar_fipe (x # xs)) \<and>
   fipe (dadosCompletos r) = Some (f\<lparr>dados := Some (ordenar_fipe (x # xs))\<rparr>) \<and>
   mset (ordenar_fipe (x # xs)) = mset (x # xs) \<and>
   score_decrescente (ordenar_fipe (x # xs)) \<and>
   filter (\<lambda>y. score_ou_zero y = k) (ordenar_fipe (x # xs)) =
     filter (\<lambda>y. score_ou_zero y = k) (x # xs) \<and>
   (dadosFipe r = Some (x # xs) \<longleftrightarrow> score_decrescente (x # xs))"
  using montar_fipe(3,4) [of d f x xs "formatar_placa U p"] consultarPlaca_Inr [of U cfg get p r d]
    ordenar_fipe_mset [of "x # xs"] ordenar_fipe_decrescente [of "x # xs"]
    ordenar_fipe_estavel [of k "x # xs"] ordenar_fipe_id [of "x # xs"]
  by simp

lemma consultarPlaca_sucesso:
  assumes "validarPlaca (formatar_placa U p)"
    and "get (url_consulta cfg (formatar_placa U p)) = Resposta d"
    and "api_mensagemRetorno d = Some sem_erros"
  shows "consultarPlaca U cfg get p = Inr (montar (formatar_placa U p) d)"
  using assms by (simp add: consultarPlaca_def)

lemma formatar_ABC1234: "formatar_placa unicode_ascii (js ''ABC1234'') = js ''ABC1234''"
  by (simp add: avaliar_formatar)

lemma consultarPlaca_com_fipe:
  "consultarPlaca unicode_ascii cfg_exemplo (provedor (com_fipe xs)) (js ''ABC1234'') =
     Inr (montar (js ''ABC1234'') (com_fipe xs))"
proof -
  have v: "validarPlaca (formatar_placa unicode_ascii (js ''ABC1234''))"
    unfolding formatar_ABC1234 using placas_exemplo by simp
  have m: "api_mensagemRetorno (com_fipe xs) = Some sem_erros"
    by (simp add: com_fipe_def resposta_vazia_def sem_erros_def)
  have g: "provedor (com_fipe xs)
             (url_consulta cfg_exemplo (formatar_placa unicode_ascii (js ''ABC1234''))) =
           Resposta (com_fipe xs)"
    by (simp add: provedor_def)
  from consultarPlaca_sucesso [where get = "provedor (com_fipe xs)", OF v g m]
  show ?thesis unfolding formatar_ABC1234 .
qed

lemma fipe_com_fipe: "fipe (com_fipe xs) = Some \<lparr>dados = Some xs\<rparr>"
  by (simp add: com_fipe_def)

lemmas avaliar_itens =
  melhor_por_score_def score_ou_zero_def item_a_def item_b_def item_zero_def item_sem_texto_def

text \<open>
  C4 as stated fails when the best candidate has the score 0: the record exposes \<^verbatim>\<open>null\<close>,
  not the score of the candidate.
\<close>

theorem consultarPlaca_melhor_fipe_contraexemplo:
  "consultarPlaca unicode_ascii cfg_exemplo (provedor (com_fipe [item_zero])) (js ''ABC1234'') =
     Inr (montar (js ''ABC1234'') (com_fipe [item_zero])) \<and>
   valorFipeScore (montar (js ''ABC1234'') (com_fipe [item_zero])) = None \<and>
   score (melhor_por_score item_zero []) = Some 0"
proof -
  have "valorFipeScore (montar (js ''ABC1234'') (com_fipe [item_zero])) =
          score_ou_nulo (melhor_por_score item_zero [])"
    using montar_fipe(2) [OF fipe_com_fipe, of "[item_zero]" item_zero "[]"] by simp
  then show ?thesis
    using consultarPlaca_com_fipe [of "[item_zero]"]
    by (simp add: avaliar_itens score_ou_nulo_def)
qed

text \<open>C4 on a list of three candidates, whose second has the greatest score.\<close>

theorem consultarPlaca_melhor_fipe_testemunha:
  "consultarPlaca unicode_ascii cfg_exemplo (provedor (com_fipe [item_b, item_a, item_zero]))
      (js ''ABC1234'') =
     Inr (montar (js ''ABC1234'') (com_fipe [item_b, item_a, item_zero])) \<and>
   melhor_por_score item_b [item_a, item_zero] = item_a \<and>
   valorFipe (montar (js ''ABC1234'') (com_fipe [item_b, item_a, item_zero])) =
     Some (js ''R$ 30.000,00'') \<and>
   valorFipeScore (montar (js ''ABC1234'') (com_fipe [item_b, item_a, item_zero])) = Some 9"
proof -
  let ?xs = "[item_b, item_a, item_zero]"
  have c: "consultarPlaca unicode_ascii cfg_exemplo (provedor (com_fipe ?xs)) (js ''ABC1234'') =
             Inr (montar (js ''ABC1234'') (com_fipe ?xs))"
    by (rule consultarPlaca_com_fipe)
  have g: "provedor (com_fipe ?xs)
             (url_consulta cfg_exemplo (formatar_placa unicode_ascii (js ''ABC1234''))) =
           Resposta (com_fipe ?xs)"
    by (simp add: provedor_def)
  have b: "melhor_por_score item_b [item_a, item_zero] = item_a"
    by (simp add: avaliar_itens)
  from consultarPlaca_melhor_fipe [OF c g fipe_com_fipe, of item_b "[item_a, item_zero]"]
  have "valorFipe (montar (js ''ABC1234'') (com_fipe ?xs)) =
          (if texto_valor item_a = Some [] then None else texto_valor item_a) \<and>
        valorFipeScore (montar (js ''ABC1234'') (com_fipe ?xs)) =
          (if score item_a = Some 0 then None else score item_a)"
    unfolding b by simp
  then show ?thesis using c b by (simp add: item_a_def js_def)
qed

text \<open>C9 on a single candidate without score and with an empty text.\<close>

theorem consultarPlaca_score_nulo_testemunha:
  "consultarPlaca unicode_ascii cfg_exemplo (provedor (com_fipe [item_sem_texto]))
      (js ''ABC1234'') =
     Inr (montar (js ''ABC1234'') (com_fipe [item_sem_texto])) \<and>
   score (melhor_por_score item_sem_texto []) = None \<and>
   texto_valor (melhor_por_score item_sem_texto []) = Some [] \<and>
   valorFipeScore (montar (js ''ABC1234'') (com_fipe [item_sem_texto])) = None \<and>
   valorFipe (montar (js ''ABC1234'') (com_fipe [item_sem_texto])) = None"
proof -
  let ?xs = "[item_sem_texto]"
  have c: "consultarPlaca unicode_ascii cfg_exemplo (provedor (com_fipe ?xs)) (js ''ABC1234'') =
             Inr (montar (js ''ABC1234'') (com_fipe ?xs))"
    by (rule consultarPlaca_com_fipe)
  have g: "provedor (com_fipe ?xs)
             (url_consulta cfg_exemplo (formatar_placa unicode_ascii (js ''ABC1234''))) =
           Resposta (com_fipe ?xs)"
    by (simp add: provedor_def)
  have b: "score (melhor_por_score item_sem_texto []) = None"
      "texto_valor (melhor_por_score item_sem_texto []) = Some []"
    by (simp_all add: avaliar_itens)
  from consultarPlaca_score_nulo [OF c g fipe_com_fipe, of item_sem_texto "[]"] b c
  show ?thesis by simp
qed

text \<open>
  C10 as stated fails when the provider's list is already in descending score order: the
  retained list is then in the original provider order.
\<close>

theorem consultarPlaca_dadosFipe_contraexemplo:
  "consultarPlaca unicode_ascii cfg_exemplo (provedor (com_fipe [item_a, item_b])) (js ''ABC1234'') =
     Inr (montar (js ''ABC1234'') (com_fipe [item_a, item_b])) \<and>
   fipe (com_fipe [item_a, item_b]) = Some \<lparr>dados = Some [item_a, item_b]\<rparr> \<and>
   dadosFipe (montar (js ''ABC1234'') (com_fipe [item_a, item_b])) = Some [item_a, item_b]"
proof -
  have "ordenar_fipe [item_a, item_b] = [item_a, item_b]"
    by (simp add: ordenar_fipe_def avaliar_itens)
  then have "dadosFipe (montar (js ''ABC1234'') (com_fipe [item_a, item_b])) = Some [item_a, item_b]"
    using montar_fipe(3) [OF fipe_com_fipe, of "[item_a, item_b]" item_a "[item_b]"] by simp
  then show ?thesis
    using consultarPlaca_com_fipe [of "[item_a, item_b]"] fipe_com_fipe [of "[item_a, item_b]"]
    by simp
qed

text \<open>C10 on a list in ascending score order, which the lookup retains reversed.\<close>

theorem consultarPlaca_dadosFipe_testemunha:
  "consultarPlaca unicode_ascii cfg_exemplo (provedor (com_fipe [item_b, item_a])) (js ''ABC1234'') =
     Inr (montar (js ''ABC1234'') (com_fipe [item_b, item_a])) \<and>
   dadosFipe (montar (js ''ABC1234'') (com_fipe [item_b, item_a])) = Some [item_a, item_b] \<and>
   \<not> score_decrescente [item_b, item_a]"
proof -
  let ?xs = "[item_b, item_a]"
  have c: "consultarPlaca unicode_ascii cfg_exemplo (provedor (com_fipe ?xs)) (js ''ABC1234'') =
             Inr (montar (js ''ABC1234'') (com_fipe ?xs))"
    by (rule consultarPlaca_com_fipe)
  have g: "provedor (com_fipe ?xs)
             (url_consulta cfg_exemplo (formatar_placa unicode_ascii (js ''ABC1234''))) =
           Resposta (com_fipe ?xs)"
    by (simp add: provedor_def)
  have o: "ordenar_fipe [item_b, item_a] = [item_a, item_b]"
    by (simp add: ordenar_fipe_def avaliar_itens)
  have n: "\<not> score_decrescente [item_b, item_a]"
    by (simp add: score_decrescente_def avaliar_itens)
  from consultarPlaca_dadosFipe_ordenado [OF c g fipe_com_fipe, of item_b "[item_a]"]
  have "dadosFipe (montar (js ''ABC1234'') (com_fipe ?xs)) = Some (ordenar_fipe [item_b, item_a])"
    by simp
  then show ?thesis using c n unfolding o by simp
qed

text \<open>C5 on three concrete plates.\<close>

theorem consultarPlaca_formato_invalido_testemunha:
  "consultarPlaca unicode_ascii cfg_exemplo (provedor resposta_vazia) (js ''AB1234'') =
     Inl FormatoInvalido \<and>
   consultarPlaca unicode_ascii cfg_exemplo (provedor resposta_vazia) (js ''abc-1234'') =
     Inl FormatoInvalido \<and>
   consultarPlaca unicode_ascii cfg_exemplo (provedor resposta_vazia) (js '' abc 1d23 '') \<noteq>
     Inl FormatoInvalido"
proof -
  have f: "formatar_placa unicode_ascii (js ''AB1234'') = js ''AB1234''"
    by (simp add: avaliar_formatar)
  have n: "\<not> formatoAntigo (js ''AB1234'')" "\<not> formatoNovo (js ''AB1234'')"
    by (simp_all add: js_def)
  from consultarPlaca_formato_invalido
    [of unicode_ascii cfg_exemplo "provedor resposta_vazia" "js ''AB1234''" "[]"]
  show ?thesis using conforme_unicode_ascii n unfolding f by blast
qed

section \<open>Properties of the request handler\<close>

lemma consultar_ausente:
  "param = None \<or> param = Some [] \<Longrightarrow> consultar U cfg W param = (resposta_400, [])"
  by (auto simp: consultar_def)

lemma recente_iff:
  "recente t doc \<longleftrightarrow> (\<exists>dc. dataConsulta doc = Some dc \<and> t - dc < 24 * 60 * 60 * 1000)"
  by (auto simp: recente_def split: option.splits)

lemma consultar_do_cache:
  assumes "p \<noteq> []" and "findLatestByPlaca U W p = Inr (Some doc)" and "recente (agora W) doc"
  shows "consultar U cfg W (Some p) =
           (\<lparr>status = 200, corpo = Sucesso Cache (Documento doc) (hora_resposta W)\<rparr>,
            [LeituraCache (toUpperCase U p)])"
  using assms by (simp add: consultar_def)

lemma consultar_sem_cache:
  assumes "p \<noteq> []"
    and "\<not> (\<exists>doc. findLatestByPlaca U W p = Inr (Some doc) \<and> recente (agora W) doc)"
  shows "\<exists>ev. consultar U cfg W (Some p) = consultar_na_api U cfg W p ev"
  using assms by (auto simp: consultar_def split: sum.splits option.splits)

lemma consultar_na_api_evento: "ConsultaApi p \<in> set (snd (consultar_na_api U cfg W p ev))"
  by (simp add: consultar_na_api_def split: sum.splits)

lemma consultar_na_api_sucesso:
  "consultarPlaca U cfg (http W) p = Inr v \<Longrightarrow>
   fst (consultar_na_api U cfg W p ev) =
     \<lparr>status = 200, corpo = Sucesso Api (Veiculo v) (hora_resposta W)\<rparr>"
  by (simp add: consultar_na_api_def)

lemma consultar_na_api_erro:
  "consultarPlaca U cfg (http W) p = Inl err \<Longrightarrow>
   fst (consultar_na_api U cfg W p ev) = middleware_erro err"
  by (simp add: consultar_na_api_def)

lemma consultar_na_api_resposta:
  "fst (consultar_na_api U cfg W p ev) = fst (consultar_na_api U cfg W p ev')"
  by (simp add: consultar_na_api_def split: sum.splits)

text \<open>
  The decision of the handler on the answer of the store query, for a request with a
  plate: if the query returns a record and its query timestamp is less than 24 hours before
  now, the answer is 200 with that record tagged \<open>Cache\<close>, and the lookup client is not
  called; otherwise the lookup client is called with the plate, and when it returns a
  record the answer is 200 with that record tagged \<open>Api\<close>. A record queried 23 hours ago is
  served from the cache, one queried 25 hours ago leads to a call of the lookup client.
\<close>

theorem consultar_cache_ou_api:
  "p \<noteq> [] \<Longrightarrow>
   (findLatestByPlaca U W p = Inr (Some doc) \<and> dataConsulta doc = Some dc \<and>
    agora W - dc < 24 * 60 * 60 * 1000 \<longrightarrow>
      consultar U cfg W (Some p) =
        (\<lparr>status = 200, corpo = Sucesso Cache (Documento doc) (hora_resposta W)\<rparr>,
         [LeituraCache (toUpperCase U p)]) \<and>
      (\<forall>q. ConsultaApi q \<notin> set (snd (consultar U cfg W (Some p))))) \<and>
   (\<not> (\<exists>doc dc. findLatestByPlaca U W p = Inr (Some doc) \<and> dataConsulta doc = Some dc \<and>
           agora W - dc < 24 * 60 * 60 * 1000) \<longrightarrow>
      ConsultaApi p \<in> set (snd (consultar U cfg W (Some p))) \<and>
      (\<forall>v. consultarPlaca U cfg (http W) p = Inr v \<longrightarrow>
         fst (consultar U cfg W (Some p)) =
           \<lparr>status = 200, corpo = Sucesso Api (Veiculo v) (hora_resposta W)\<rparr>)) \<and>
   (findLatestByPlaca U W p = Inr (Some doc) \<and>
    dataConsulta doc = Some (agora W - 23 * 60 * 60 * 1000) \<longrightarrow>
      fst (consultar U cfg W (Some p)) =
        \<lparr>status = 200, corpo = Sucesso Cache (Documento doc) (hora_resposta W)\<rparr>) \<and>
   (findLatestByPlaca U W p = Inr (Some doc) \<and>
    dataConsulta doc = Some (agora W - 25 * 60 * 60 * 1000) \<longrightarrow>
      ConsultaApi p \<in> set (snd (consultar U cfg W (Some p))))"
proof (intro conjI impI)
  assume p: "p \<noteq> []"
  {
    assume a: "findLatestByPlaca U W p = Inr (Some doc) \<and> dataConsulta doc = Some dc \<and>
      agora W - dc < 24 * 60 * 60 * 1000"
    then have r: "recente (agora W) doc" by (auto simp: recente_iff)
    from consultar_do_cache [OF p _ r, of U cfg] a
    show c: "consultar U cfg W (Some p) =
        (\<lparr>status = 200, corpo = Sucesso Cache (Documento doc) (hora_resposta W)\<rparr>,
         [LeituraCache (toUpperCase U p)])" by simp
    show "\<forall>q. ConsultaApi q \<notin> set (snd (consultar U cfg W (Some p)))"
      unfolding c by simp
  }
  {
    assume a: "\<not> (\<exists>doc dc. findLatestByPlaca U W p = Inr (Some doc) \<and>
      dataConsulta doc = Some dc \<and> agora W - dc < 24 * 60 * 60 * 1000)"
    then have "\<not> (\<exists>doc. findLatestByPlaca U W p = Inr (Some doc) \<and> recente (agora W) doc)"
      by (auto simp: recente_iff)
    from consultar_sem_cache [OF p this, of cfg] obtain ev where
      e: "consultar U cfg W (Some p) = consultar_na_api U cfg W p ev" by blast
    show "ConsultaApi p \<in> set (snd (consultar U cfg W (Some p)))"
      unfolding e by (rule consultar_na_api_evento)
    show "\<forall>v. consultarPlaca U cfg (http W) p = Inr v \<longrightarrow>
         fst (consultar U cfg W (Some p)) =
           \<lparr>status = 200, corpo = Sucesso Api (Veiculo v) (hora_resposta W)\<rparr>"
      unfolding e by (simp add: consultar_na_api_sucesso)
  }
  {
    assume a: "findLatestByPlaca U W p = Inr (Some doc) \<and>
      dataConsulta doc = Some (agora W - 23 * 60 * 60 * 1000)"
    then have r: "recente (agora W) doc" by (simp add: recente_iff)
    from consultar_do_cache [OF p _ r, of U cfg] a
    show "fst (consultar U cfg W (Some p)) =
        \<lparr>status = 200, corpo = Sucesso Cache (Documento doc) (hora_resposta W)\<rparr>" by simp
  }
  {
    assume a: "findLatestByPlaca U W p = Inr (Some doc) \<and>
      dataConsulta doc = Some (agora W - 25 * 60 * 60 * 1000)"
    then have "\<not> recente (agora W) doc" by (simp add: recente_iff)
    with a have "\<not> (\<exists>doc. findLatestByPlaca U W p = Inr (Some doc) \<and> recente (agora W) doc)"
      by auto
    from consultar_sem_cache [OF p this, of cfg] obtain ev where
      e: "consultar U cfg W (Some p) = consultar_na_api U cfg W p ev" by blast
    show "ConsultaApi p \<in> set (snd (consultar U cfg W (Some p)))"
      unfolding e by (rule consultar_na_api_evento)
  }
qed

lemma consultar_leitura_falha:
  assumes "p \<noteq> []" and "findLatestByPlaca U W p = Inl e"
  shows "consultar U cfg W (Some p) =
           consultar_na_api U cfg W p [LeituraCache (toUpperCase U p), Aviso]"
  using assms by (simp add: consultar_def)

lemma consultar_sem_registro:
  assumes "p \<noteq> []" and "findLatestByPlaca U W p = Inr None"
  shows "consultar U cfg W (Some p) = consultar_na_api U cfg W p [LeituraCache (toUpperCase U p)]"
  using assms by (simp add: consultar_def)

lemma consultar_na_api_mundo:
  "http W' = http W \<Longrightarrow> hora_resposta W' = hora_resposta W \<Longrightarrow>
   fst (consultar_na_api U cfg W' p ev') = fst (consultar_na_api U cfg W p ev)"
  by (simp add: consultar_na_api_def split: sum.splits)

lemma consultar_gravacao:
  "fst (consultar U cfg (W\<lparr>save := s1\<rparr>) param) = fst (consultar U cfg (W\<lparr>save := s2\<rparr>) param)"
proof -
  have n: "\<And>p ev. fst (consultar_na_api U cfg (W\<lparr>save := s1\<rparr>) p ev) =
                  fst (consultar_na_api U cfg (W\<lparr>save := s2\<rparr>) p ev)"
    by (rule consultar_na_api_mundo) simp_all
  show ?thesis
    by (simp add: consultar_def findLatestByPlaca_def n split: option.splits sum.splits)
qed

lemma consultar_respostas:
  "fst (consultar U cfg W param) = resposta_400 \<or>
   status (fst (consultar U cfg W param)) = 200 \<or>
   (\<exists>p err. param = Some p \<and> consultarPlaca U cfg (http W) p = Inl err \<and>
      fst (consultar U cfg W param) = middleware_erro err)"
  by (auto simp: consultar_def consultar_na_api_def split: option.splits sum.splits)

text \<open>
  C7. A failure of the store on the cache read gives the same response as a cache miss,
  and the lookup client is called; the response does not depend on whether saving
  succeeds; and every response is the 400 for a missing plate, a 200, or the answer of the
  middleware to an error thrown by the lookup client: no failure of the store reaches the
  caller.
\<close>

theorem consultar_falhas_do_banco:
  "(p \<noteq> [] \<and> findLatestByPlaca U W p = Inl e \<longrightarrow>
      fst (consultar U cfg W (Some p)) =
        fst (consultar U cfg (W\<lparr>findOne := \<lambda>q. Inr None\<rparr>) (Some p)) \<and>
      ConsultaApi p \<in> set (snd (consultar U cfg W (Some p)))) \<and>
   fst (consultar U cfg (W\<lparr>save := s1\<rparr>) param) = fst (consultar U cfg (W\<lparr>save := s2\<rparr>) param) \<and>
   (fst (consultar U cfg W param) = resposta_400 \<or>
    status (fst (consultar U cfg W param)) = 200 \<or>
    (\<exists>q err. param = Some q \<and> consultarPlaca U cfg (http W) q = Inl err \<and>
       fst (consultar U cfg W param) = middleware_erro err))"
proof (intro conjI impI)
  {
    assume a: "p \<noteq> [] \<and> findLatestByPlaca U W p = Inl e"
    let ?W = "W\<lparr>findOne := \<lambda>q. Inr None\<rparr>"
    have f: "consultar U cfg W (Some p) =
               consultar_na_api U cfg W p [LeituraCache (toUpperCase U p), Aviso]"
      using a by (simp add: consultar_leitura_falha)
    have "findLatestByPlaca U ?W p = Inr None" by (simp add: findLatestByPlaca_def)
    then have m: "consultar U cfg ?W (Some p) =
               consultar_na_api U cfg ?W p [LeituraCache (toUpperCase U p)]"
      using a by (simp add: consultar_sem_registro)
    show "fst (consultar U cfg W (Some p)) = fst (consultar U cfg ?W (Some p))"
      unfolding f m by (rule consultar_na_api_mundo [symmetric]) simp_all
    show "ConsultaApi p \<in> set (snd (consultar U cfg W (Some p)))"
      unfolding f by (rule consultar_na_api_evento)
  }
  show "fst (consultar U cfg (W\<lparr>save := s1\<rparr>) param) = fst (consultar U cfg (W\<lparr>save := s2\<rparr>) param)"
    by (rule consultar_gravacao)
  show "fst (consultar U cfg W param) = resposta_400 \<or>
    status (fst (consultar U cfg W param)) = 200 \<or>
    (\<exists>q err. param = Some q \<and> consultarPlaca U cfg (http W) q = Inl err \<and>
       fst (consultar U cfg W param) = middleware_erro err)"
    by (rule consultar_respostas)
qed

lemma consultar_formato_invalido:
  assumes "p \<noteq> []" and "\<not> validarPlaca (formatar_placa U p)"
    and "\<not> (\<exists>doc. findLatestByPlaca U W p = Inr (Some doc) \<and> recente (agora W) doc)"
  shows "fst (consultar U cfg W (Some p)) =
           \<lparr>status = 500, corpo = Falha (mensagem FormatoInvalido)\<rparr>"
proof -
  from consultar_sem_cache [OF assms(1,3), of cfg] obtain ev where
    e: "consultar U cfg W (Some p) = consultar_na_api U cfg W p ev" by blast
  have c: "consultarPlaca U cfg (http W) p = Inl FormatoInvalido"
    using assms(2) by (simp add: consultarPlaca_formato)
  show ?thesis unfolding e consultar_na_api_erro [OF c]
    by (simp add: middleware_erro_def js_def)
qed

text \<open>
  C8, amended. A request without plate (missing or empty) is answered with status 400, an
  error text and a guidance message. A request whose plate fails the format check, when
  the store holds no fresh record for it, is answered with status 500 and the
  invalid-format message of the lookup client as error text; when the store returns a fresh
  record for the plate as given, that record is served with status 200.
\<close>

theorem consultar_placa_invalida:
  "(param = None \<or> param = Some [] \<longrightarrow>
      consultar U cfg W param = (resposta_400, []) \<and> status resposta_400 = 400 \<and>
      corpo resposta_400 =
        Obrigatoria (js ''Placa '' @ [233] @ js '' obrigat'' @ [243] @ js ''ria'')
          (js ''Informe a placa do ve'' @ [237] @ js ''culo no formato AAA0X00 ou AAA9999'')) \<and>
   (p \<noteq> [] \<and> \<not> validarPlaca (formatar_placa U p) \<and>
    \<not> (\<exists>doc. findLatestByPlaca U W p = Inr (Some doc) \<and> recente (agora W) doc) \<longrightarrow>
      fst (consultar U cfg W (Some p)) =
        \<lparr>status = 500,
         corpo = Falha (js ''Formato de placa inv'' @ [225] @
                        js ''lido. Use o formato AAA0X00 ou AAA9999'')\<rparr>) \<and>
   (p \<noteq> [] \<and> findLatestByPlaca U W p = Inr (Some doc) \<and> recente (agora W) doc \<longrightarrow>
      status (fst (consultar U cfg W (Some p))) = 200)"
  using consultar_ausente [of param U cfg W] consultar_formato_invalido [of p U W cfg]
    consultar_do_cache [of p U W doc cfg]
  by (auto simp: resposta_400_def)

lemma dataConsulta_exemplo: "dataConsulta (documento_exemplo t) = Some t"
  by (simp add: documento_exemplo_def veiculoData.defs)

lemma placa_nao_vazia: "js ''ABC1234'' \<noteq> []" "js ''AB1234'' \<noteq> []"
  by (simp_all add: js_def)

lemma maiusculas_ABC1234: "toUpperCase unicode_ascii (js ''ABC1234'') = js ''ABC1234''"
  by (simp add: unicode_ascii_def maiuscula_ascii_def js_def)

text \<open>That decision in a store whose record is 23 hours old, and in one whose record is 25 hours old.\<close>

theorem consultar_cache_ou_api_testemunha:
  "consultar unicode_ascii cfg_exemplo (mundo_com_registro (1000 * hora - 23 * 60 * 60 * 1000))
     (Some (js ''ABC1234'')) =
     (\<lparr>status = 200,
       corpo = Sucesso Cache (Documento (documento_exemplo (1000 * hora - 23 * 60 * 60 * 1000)))
                 (1000 * hora + 1)\<rparr>,
      [LeituraCache (js ''ABC1234'')]) \<and>
   ConsultaApi (js ''ABC1234'') \<in>
     set (snd (consultar unicode_ascii cfg_exemplo
                 (mundo_com_registro (1000 * hora - 25 * 60 * 60 * 1000)) (Some (js ''ABC1234''))))"
proof -
  let ?t = "1000 * hora - 23 * 60 * 60 * 1000"
  let ?u = "1000 * hora - 25 * 60 * 60 * 1000"
  have f: "\<And>t. findLatestByPlaca unicode_ascii (mundo_com_registro t) (js ''ABC1234'') =
             Inr (Some (documento_exemplo t))"
    by (simp add: findLatestByPlaca_def mundo_com_registro_def)
  have a: "\<And>t. agora (mundo_com_registro t) = 1000 * hora"
      "\<And>t. hora_resposta (mundo_com_registro t) = 1000 * hora + 1"
    by (simp_all add: mundo_com_registro_def mundo_vazio_def)
  from consultar_cache_ou_api [OF placa_nao_vazia(1), of unicode_ascii "mundo_com_registro ?t"
      "documento_exemplo ?t" ?t cfg_exemplo]
  have 1: "consultar unicode_ascii cfg_exemplo (mundo_com_registro ?t) (Some (js ''ABC1234'')) =
     (\<lparr>status = 200, corpo = Sucesso Cache (Documento (documento_exemplo ?t)) (1000 * hora + 1)\<rparr>,
      [LeituraCache (js ''ABC1234'')])"
    by (simp add: f a dataConsulta_exemplo maiusculas_ABC1234)
  from consultar_cache_ou_api [OF placa_nao_vazia(1), of unicode_ascii "mundo_com_registro ?u"
      "documento_exemplo ?u" ?u cfg_exemplo]
  have 2: "ConsultaApi (js ''ABC1234'') \<in>
     set (snd (consultar unicode_ascii cfg_exemplo (mundo_com_registro ?u) (Some (js ''ABC1234''))))"
    by (simp add: f a dataConsulta_exemplo)
  from 1 2 show ?thesis by simp
qed

lemma consultar_mundo_vazio:
  "fst (consultar unicode_ascii cfg_exemplo mundo_vazio (Some (js ''ABC1234''))) =
     \<lparr>status = 200,
      corpo = Sucesso Api (Veiculo (montar (js ''ABC1234'') resposta_vazia)) (1000 * hora + 1)\<rparr>"
proof -
  have v: "validarPlaca (formatar_placa unicode_ascii (js ''ABC1234''))"
    unfolding formatar_ABC1234 using placas_exemplo by simp
  have c: "consultarPlaca unicode_ascii cfg_exemplo (http mundo_vazio) (js ''ABC1234'') =
             Inr (montar (js ''ABC1234'') resposta_vazia)"
    using consultarPlaca_sucesso [where get = "http mundo_vazio" and d = resposta_vazia, OF v]
    unfolding formatar_ABC1234
    by (simp add: mundo_vazio_def provedor_def resposta_vazia_def sem_erros_def)
  have "findLatestByPlaca unicode_ascii mundo_vazio (js ''ABC1234'') = Inr None"
    by (simp add: findLatestByPlaca_def mundo_vazio_def)
  from consultar_sem_registro [OF placa_nao_vazia(1) this, of cfg_exemplo]
    consultar_na_api_sucesso [OF c]
  show ?thesis by (simp add: mundo_vazio_def)
qed

text \<open>C7 in a world whose store fails on read and on write: the answer is the one of the
  world with a working, empty store.\<close>

theorem consultar_falhas_do_banco_testemunha:
  "fst (consultar unicode_ascii cfg_exemplo mundo_sem_banco (Some (js ''ABC1234''))) =
     \<lparr>status = 200,
      corpo = Sucesso Api (Veiculo (montar (js ''ABC1234'') resposta_vazia)) (1000 * hora + 1)\<rparr>"
proof -
  let ?W = "mundo_vazio\<lparr>save := \<lambda>v. False, findOne := \<lambda>q. Inl (Excecao (js ''buffering timed out''))\<rparr>"
  have w: "mundo_sem_banco = ?W" by (simp add: mundo_sem_banco_def)
  have f: "findLatestByPlaca unicode_ascii ?W (js ''ABC1234'') =
             Inl (Excecao (js ''buffering timed out''))"
    by (simp add: findLatestByPlaca_def)
  have z: "?W\<lparr>findOne := \<lambda>q. Inr None\<rparr> = mundo_vazio\<lparr>save := \<lambda>v. False\<rparr>"
    by (simp add: mundo_vazio_def)
  have s: "mundo_vazio\<lparr>save := \<lambda>v. True\<rparr> = mundo_vazio" by (simp add: mundo_vazio_def)
  from consultar_falhas_do_banco [where p = "js ''ABC1234''" and U = unicode_ascii and W = ?W
      and e = "Excecao (js ''buffering timed out'')" and cfg = cfg_exemplo]
  have 1: "fst (consultar unicode_ascii cfg_exemplo ?W (Some (js ''ABC1234''))) =
           fst (consultar unicode_ascii cfg_exemplo (mundo_vazio\<lparr>save := \<lambda>v. False\<rparr>)
                  (Some (js ''ABC1234'')))"
    using f placa_nao_vazia(1) unfolding z by blast
  from consultar_falhas_do_banco [where U = unicode_ascii and W = mundo_vazio
      and cfg = cfg_exemplo and ?s1.0 = "\<lambda>v. False" and ?s2.0 = "\<lambda>v. True"
      and param = "Some (js ''ABC1234'')"]
  have 2: "fst (consultar unicode_ascii cfg_exemplo (mundo_vazio\<lparr>save := \<lambda>v. False\<rparr>)
                  (Some (js ''ABC1234''))) =
           fst (consultar unicode_ascii cfg_exemplo mundo_vazio (Some (js ''ABC1234'')))"
    unfolding s by blast
  show ?thesis unfolding w 1 2 by (rule consultar_mundo_vazio)
qed

text \<open>
  C8 as stated fails at the plate \<^verbatim>\<open>AB1234\<close>, which fails the format check: with an empty
  store the answer has status 500, not 400.
\<close>

theorem consultar_placa_invalida_contraexemplo:
  "\<not> validarPlaca (formatar_placa unicode_ascii (js ''AB1234'')) \<and>
   status (fst (consultar unicode_ascii cfg_exemplo mundo_vazio (Some (js ''AB1234'')))) = 500"
proof -
  have f: "formatar_placa unicode_ascii (js ''AB1234'') = js ''AB1234''"
    by (simp add: avaliar_formatar)
  have n: "\<not> validarPlaca (formatar_placa unicode_ascii (js ''AB1234''))"
    unfolding f using placas_exemplo by simp
  have "\<not> (\<exists>doc. findLatestByPlaca unicode_ascii mundo_vazio (js ''AB1234'') = Inr (Some doc) \<and>
            recente (agora mundo_vazio) doc)"
    by (simp add: findLatestByPlaca_def mundo_vazio_def)
  from consultar_formato_invalido [OF placa_nao_vazia(2) n this, of cfg_exemplo] n
  show ?thesis by simp
qed

text \<open>C8 on a request without plate and on the plate \<^verbatim>\<open>ABCD123\<close>.\<close>

theorem consultar_placa_invalida_testemunha:
  "consultar unicode_ascii cfg_exemplo mundo_vazio None = (resposta_400, []) \<and>
   fst (consultar unicode_ascii cfg_exemplo mundo_vazio (Some (js ''ABCD123''))) =
     \<lparr>status = 500,
      corpo = Falha (js ''Formato de placa inv'' @ [225] @
                     js ''lido. Use o formato AAA0X00 ou AAA9999'')\<rparr>"
proof -
  have f: "formatar_placa unicode_ascii (js ''ABCD123'') = js ''ABCD123''"
    by (simp add: avaliar_formatar)
  have n: "\<not> validarPlaca (formatar_placa unicode_ascii (js ''ABCD123''))"
    unfolding f using placas_exemplo by simp
  have e: "js ''ABCD123'' \<noteq> []" by (simp add: js_def)
  have c: "\<not> (\<exists>doc. findLatestByPlaca unicode_ascii mundo_vazio (js ''ABCD123'') = Inr (Some doc) \<and>
            recente (agora mundo_vazio) doc)"
    by (simp add: findLatestByPlaca_def mundo_vazio_def)
  from consultar_placa_invalida [of None unicode_ascii cfg_exemplo mundo_vazio "js ''ABCD123''" undefined]
  show ?thesis using n e c by blast
qed

text \<open>
  The cache is read under the plate of the request in upper case, as it came: when no
  stored document carries exactly that string as plate, the lookup client is called.
\<close>

lemma buscar_na_colecao_None:
  "buscar_na_colecao docs q = None \<longleftrightarrow> (\<forall>d \<in> set docs. placa d \<noteq> q)"
proof -
  have "buscar_na_colecao docs q = None \<longleftrightarrow> filter (\<lambda>d. placa d = q) docs = []"
    by (simp add: buscar_na_colecao_def split: list.splits)
  then show ?thesis by (simp add: filter_empty_conv)
qed

lemma consultar_chave_do_cache:
  assumes "p \<noteq> []" and "\<forall>d \<in> set docs. placa d \<noteq> toUpperCase U p"
  shows "ConsultaApi p \<in> set (snd (consultar U cfg (mundo_colecao docs) (Some p)))"
proof -
  have "findLatestByPlaca U (mundo_colecao docs) p = Inr None"
    using assms(2) buscar_na_colecao_None [of docs "toUpperCase U p"]
    by (simp add: findLatestByPlaca_def mundo_colecao_def)
  from consultar_sem_registro [OF assms(1) this, of cfg] show ?thesis
    by (simp add: consultar_na_api_evento)
qed

lemma placa_documento_exemplo: "placa (documento_exemplo t) = js ''ABC1234''"
  by (simp add: documento_exemplo_def veiculoData.defs montar_def resposta_vazia_def candidatos_def)

lemma recente_documento_exemplo:
  "recente (agora (mundo_colecao docs)) (documento_exemplo (999 * hora))"
  by (simp add: recente_def dataConsulta_exemplo mundo_colecao_def mundo_vazio_def hora_def)

lemma busca_com_espaco:
  "buscar_na_colecao [documento_exemplo t] (js ''ABC 1234'') = None"
  by (simp add: buscar_na_colecao_def placa_documento_exemplo) (simp add: js_def)

lemma busca_sem_espaco:
  "buscar_na_colecao [documento_exemplo t] (js ''ABC1234'') = Some (documento_exemplo t)"
  by (simp add: buscar_na_colecao_def placa_documento_exemplo)

lemma formatar_com_espaco: "formatar_placa unicode_ascii (js ''ABC 1234'') = js ''ABC1234''"
  by (simp add: avaliar_formatar)

lemma maiusculas_exemplos:
  "toUpperCase unicode_ascii (js ''ABC 1234'') = js ''ABC 1234''"
  "toUpperCase unicode_ascii (js ''abc1234'') = js ''ABC1234''"
  by (simp_all add: unicode_ascii_def maiuscula_ascii_def js_def)

lemma consultarPlaca_com_espaco:
  "consultarPlaca unicode_ascii cfg_exemplo (http (mundo_colecao docs)) (js ''ABC 1234'') =
     Inr (montar (js ''ABC1234'') resposta_vazia)"
proof -
  have v: "validarPlaca (formatar_placa unicode_ascii (js ''ABC 1234''))"
    unfolding formatar_com_espaco using placas_exemplo by simp
  show ?thesis
    using consultarPlaca_sucesso [where get = "http (mundo_colecao docs)" and d = resposta_vazia, OF v]
    unfolding formatar_com_espaco
    by (simp add: mundo_colecao_def mundo_vazio_def provedor_def resposta_vazia_def sem_erros_def)
qed

text \<open>
  C6. The claim holds for the decision taken on the answer of the store query
  (\<open>consultar_cache_ou_api\<close>), but not for the record of the plate: the lookup client strips
  white space from the plate and saves the record under the stripped plate, while the cache
  is read under the plate as it came. In a store that holds a record of the plate
  \<^verbatim>\<open>ABC1234\<close> queried one hour ago, the request for \<^verbatim>\<open>ABC 1234\<close> (the same plate once white
  space is stripped) reads the cache under \<^verbatim>\<open>ABC 1234\<close>, finds nothing, calls the lookup
  client, answers with the tag \<open>Api\<close> and saves one more record under \<^verbatim>\<open>ABC1234\<close>; the
  request for \<^verbatim>\<open>abc1234\<close> is served from the cache.
\<close>

theorem consultar_placa_com_espaco:
  "placa (documento_exemplo (999 * hora)) = js ''ABC1234'' \<and>
   formatar_placa unicode_ascii (js ''ABC 1234'') = js ''ABC1234'' \<and>
   recente (agora (mundo_colecao [documento_exemplo (999 * hora)])) (documento_exemplo (999 * hora)) \<and>
   consultar unicode_ascii cfg_exemplo (mundo_colecao [documento_exemplo (999 * hora)])
     (Some (js ''ABC 1234'')) =
     (\<lparr>status = 200,
       corpo = Sucesso Api (Veiculo (montar (js ''ABC1234'') resposta_vazia)) (1000 * hora + 1)\<rparr>,
      [LeituraCache (js ''ABC 1234''), ConsultaApi (js ''ABC 1234''),
       Gravacao (montar (js ''ABC1234'') resposta_vazia)]) \<and>
   consultar unicode_ascii cfg_exemplo (mundo_colecao [documento_exemplo (999 * hora)])
     (Some (js ''abc1234'')) =
     (\<lparr>status = 200,
       corpo = Sucesso Cache (Documento (documento_exemplo (999 * hora))) (1000 * hora + 1)\<rparr>,
      [LeituraCache (js ''ABC1234'')])"
proof (intro conjI)
  let ?W = "mundo_colecao [documento_exemplo (999 * hora)]"
  show "placa (documento_exemplo (999 * hora)) = js ''ABC1234''"
    by (rule placa_documento_exemplo)
  show "formatar_placa unicode_ascii (js ''ABC 1234'') = js ''ABC1234''"
    by (rule formatar_com_espaco)
  show r: "recente (agora ?W) (documento_exemplo (999 * hora))"
    by (rule recente_documento_exemplo)
  have ne: "js ''ABC 1234'' \<noteq> []" "js ''abc1234'' \<noteq> []" by (simp_all add: js_def)
  have f1: "findLatestByPlaca unicode_ascii ?W (js ''ABC 1234'') = Inr None"
    by (simp add: findLatestByPlaca_def mundo_colecao_def maiusculas_exemplos busca_com_espaco)
  have f2: "findLatestByPlaca unicode_ascii ?W (js ''abc1234'') =
              Inr (Some (documento_exemplo (999 * hora)))"
    by (simp add: findLatestByPlaca_def mundo_colecao_def maiusculas_exemplos busca_sem_espaco)
  have h: "hora_resposta ?W = 1000 * hora + 1" "save ?W = (\<lambda>v. True)"
    by (simp_all add: mundo_colecao_def mundo_vazio_def)
  show "consultar unicode_ascii cfg_exemplo ?W (Some (js ''ABC 1234'')) =
     (\<lparr>status = 200,
       corpo = Sucesso Api (Veiculo (montar (js ''ABC1234'') resposta_vazia)) (1000 * hora + 1)\<rparr>,
      [LeituraCache (js ''ABC 1234''), ConsultaApi (js ''ABC 1234''),
       Gravacao (montar (js ''ABC1234'') resposta_vazia)])"
    unfolding consultar_sem_registro [OF ne(1) f1]
    by (simp add: consultar_na_api_def consultarPlaca_com_espaco h maiusculas_exemplos)
  show "consultar unicode_ascii cfg_exemplo ?W (Some (js ''abc1234'')) =
     (\<lparr>status = 200,
       corpo = Sucesso Cache (Documento (documento_exemplo (999 * hora))) (1000 * hora + 1)\<rparr>,
      [LeituraCache (js ''ABC1234'')])"
    unfolding consultar_do_cache [OF ne(2) f2 r] by (simp add: h maiusculas_exemplos)
qed

end
